theory Spec2Isabelle
  imports Main "HOL-Library.Sublist"
begin

section \<open>Strings and header keys\<close>

text \<open>
  Go strings are byte sequences; they are modelled as \<open>string\<close> (a list of \<open>char\<close>).
  \<open>Contains\<close> is \<open>strings.Contains\<close>: some suffix of \<open>s\<close> starts with \<open>substr\<close>.
\<close>

fun Contains :: "string \<Rightarrow> string \<Rightarrow> bool" where
  "Contains [] substr = (substr = [])"
| "Contains (c # cs) substr = (prefix substr (c # cs) \<or> Contains cs substr)"

text \<open>
  \<open>Split s sep\<close> is \<open>strings.Split\<close> for a separator of one byte (the handler splits on
  \<open>"."\<close>): the pieces between the occurrences of the separator, in order. A string
  without the separator gives the one-element list \<open>[s]\<close>.
\<close>

fun Split :: "string \<Rightarrow> char \<Rightarrow> string list" where
  "Split [] sep = [[]]"
| "Split (c # cs) sep =
     (if c = sep then [] # Split cs sep
      else (case Split cs sep of
              [] \<Rightarrow> [[c]]
            | p # ps \<Rightarrow> (c # p) # ps))"

text \<open>
  \<open>textproto.CanonicalMIMEHeaderKey\<close>, which \<open>http.Header.Set\<close> and \<open>http.Header.Add\<close>
  apply to the key: a key made of token bytes only gets an upper-case first letter and an
  upper-case letter after each \<open>-\<close>, every other letter in lower case; a key with any
  other byte is left as it is.
\<close>

definition lower_letters :: string where
  "lower_letters = ''abcdefghijklmnopqrstuvwxyz''"

definition upper_letters :: string where
  "upper_letters = ''ABCDEFGHIJKLMNOPQRSTUVWXYZ''"

definition validHeaderFieldByte :: "char \<Rightarrow> bool" where
  "validHeaderFieldByte c =
     (c \<in> set (lower_letters @ upper_letters @ ''0123456789'' @ ''!#$%&*+-.^_`|~'' @ [CHR 0x27]))"

definition to_upper :: "char \<Rightarrow> char" where
  "to_upper c = (case map_of (zip lower_letters upper_letters) c of Some u \<Rightarrow> u | None \<Rightarrow> c)"

definition to_lower :: "char \<Rightarrow> char" where
  "to_lower c = (case map_of (zip upper_letters lower_letters) c of Some l \<Rightarrow> l | None \<Rightarrow> c)"

fun canonicalize :: "bool \<Rightarrow> string \<Rightarrow> string" where
  "canonicalize upper [] = []"
| "canonicalize upper (c # cs) =
     (if upper then to_upper c # canonicalize (to_upper c = CHR ''-'') cs
      else to_lower c # canonicalize (to_lower c = CHR ''-'') cs)"

definition CanonicalMIMEHeaderKey :: "string \<Rightarrow> string" where
  "CanonicalMIMEHeaderKey s =
     (if list_all validHeaderFieldByte s then canonicalize True s else s)"

section \<open>Header sets\<close>

text \<open>
  \<open>http.Header\<close> is \<open>map[string][]string\<close>: a partial map from a name to the ordered
  list of its values. \<open>Set\<close> replaces the values of the canonical key by the one value,
  \<open>Add\<close> appends to them, \<open>Clone\<close> copies every entry.
\<close>

type_synonym header = "string \<rightharpoonup> string list"

definition Header_Set :: "header \<Rightarrow> string \<Rightarrow> string \<Rightarrow> header" where
  "Header_Set h k v = h(CanonicalMIMEHeaderKey k \<mapsto> [v])"

definition Header_Add :: "header \<Rightarrow> string \<Rightarrow> string \<Rightarrow> header" where
  "Header_Add h k v =
     h(CanonicalMIMEHeaderKey k \<mapsto>
         (case h (CanonicalMIMEHeaderKey k) of None \<Rightarrow> [] | Some vs \<Rightarrow> vs) @ [v])"

definition Header_Clone :: "header \<Rightarrow> header" where
  "Header_Clone h = (\<lambda>k. h k)"

section \<open>Requests, responses and the objects they point to\<close>

text \<open>
  \<open>req.URL\<close> is a pointer to a \<open>url.URL\<close>, \<open>req.Header\<close> a reference to a map and
  \<open>req.Body\<close> a single-consumption stream: all three are addresses into a store, so
  that a write through an alias is visible through the other name. Of \<open>url.URL\<close> the
  fields that the server fills for a request under \<open>/admin\<close> are kept: the path, the
  raw query and \<open>ForceQuery\<close> (the request target ends in a bare \<open>?\<close>), with the
  scheme and the host that the handler writes; there is no opaque part, user or fragment.
\<close>

type_synonym addr = nat

record Url =
  Scheme :: string
  Host :: string
  Path :: string
  ForceQuery :: bool
  RawQuery :: string

record Request =
  Method :: string
  URL :: addr
  Header :: addr
  Body :: addr
  ReqHost :: string
  RemoteAddr :: string

text \<open>The \<open>User\<close> struct the login body is decoded into.\<close>

record User =
  Username :: string
  Password :: string

text \<open>
  The request \<open>http.NewRequest\<close> builds: the method, the target as the URL string, and
  references to its header map and its body stream.
\<close>

record ProxyRequest =
  pMethod :: string
  pURL :: string
  pHeader :: addr
  pBody :: addr

text \<open>
  What \<open>client.Do\<close> puts on the wire: the header set as it stands at the call and the
  bytes still unread in the body stream.
\<close>

record Forwarded =
  fMethod :: string
  fURL :: string
  fHeader :: header
  fBody :: string

text \<open>
  The backend's response. \<open>proxyRes.Header\<close> is a map that the handler ranges over; the
  list gives its entries in the order of that iteration.
\<close>

record Response =
  StatusCode :: nat
  RespHeader :: "(string \<times> string list) list"
  RespBody :: string

text \<open>A WebSocket message: its type (\<open>websocket.TextMessage\<close> is 1) and its payload.\<close>

type_synonym message = "nat \<times> string"

definition TextMessage :: nat where
  "TextMessage = 1"

record WsConn =
  inbox :: "message list"
  outbox :: "message list"
  closed :: bool

text \<open>
  The state one call of the handler works on: the store, the response writer \<open>w\<close>
  (its header map \<open>w.Header()\<close>, the status line and header set already sent to the
  caller, the body bytes written), the requests handed to the backend, the two
  WebSocket connections of a command session, and the arguments of the handler's calls
  of \<open>mime.TypeByExtension\<close>, in order.
\<close>

record state =
  urls :: "addr \<Rightarrow> Url"
  headers :: "addr \<Rightarrow> header"
  streams :: "addr \<Rightarrow> string"
  next_addr :: addr
  w_Header :: header
  w_status :: "nat option"
  w_sent_header :: header
  w_body :: string
  forwarded :: "Forwarded list"
  clientC :: "WsConn option"
  fbC :: "WsConn option"
  mime_asked :: "string list"

text \<open>
  What the handler calls outside this repository, as parameters of the model:
  \<^item> \<open>EscapedPath\<close>: the escaping \<open>url.URL.String\<close> applies to the path;
  \<^item> \<open>NewRequest_fails\<close>: whether \<open>http.NewRequest\<close> rejects the method or the URL string;
  \<^item> \<open>Decode\<close>: \<open>json.NewDecoder(req.Body).Decode(&us)\<close> on the unread bytes of the
    body: how many bytes it reads off the stream, and the decoded \<open>User\<close> or an error;
  \<^item> \<open>Upgrade\<close>: the handshake with the caller, giving the messages the caller sends on
    the upgraded connection, or an error;
  \<^item> \<open>Dial\<close>: the WebSocket dial to the backend at a URL string, likewise;
  \<^item> \<open>WriteMessage_fails\<close>: whether the write to the caller's connection fails;
  \<^item> \<open>client_Do\<close>: the backend's answer to a forwarded request, or an error;
  \<^item> \<open>TypeByExtension\<close>: \<open>mime.TypeByExtension\<close>, the table from an extension to a
    media type (\<open>mime_builtin\<close> below is the one the Go library starts with).
\<close>

record world =
  EscapedPath :: "string \<Rightarrow> string"
  NewRequest_fails :: "string \<Rightarrow> string \<Rightarrow> bool"
  Decode :: "string \<Rightarrow> nat \<times> User option"
  Upgrade :: "message list option"
  Dial :: "string \<Rightarrow> message list option"
  WriteMessage_fails :: bool
  client_Do :: "Forwarded \<Rightarrow> Response option"
  TypeByExtension :: "string \<Rightarrow> string"

text \<open>
  How a call of the handler ends: it returns, it panics (\<open>log.Panic\<close>, an index out of
  range), or it ends the process (\<open>log.Fatal\<close> calls \<open>os.Exit(1)\<close>).
\<close>

datatype failure =
  NewRequestError | MalformedPayload | DialFailure | ClientDoError | IndexOutOfRange

datatype outcome = Returned | Panicked failure | Exited failure

section \<open>The package's variables\<close>

definition fbBaseURL :: string where
  "fbBaseURL = ''/admin''"

definition fbAuthHeader :: string where
  "fbAuthHeader = ''X-Generic-AppName''"

section \<open>fileBrowser\<close>

text \<open>
  \<open>url.String()\<close> on the four fields: the scheme and \<open>:\<close>; \<open>//\<close> and the host when
  there is a scheme or a host (the \<open>//\<close> only with a host or a path); a \<open>/\<close> when
  there is a host and the escaped path does not start with one; \<open>./\<close> when nothing has
  been written so far and the first segment of the path has a \<open>:\<close>; the escaped path;
  and \<open>?\<close> with the raw query when there is one or \<open>ForceQuery\<close> is set. The handler
  calls it once lines 78 and 79 have set the scheme and the host \<open>localhost:8080\<close>,
  which needs no escaping.
\<close>

definition URL_String :: "world \<Rightarrow> Url \<Rightarrow> string" where
  "URL_String env u =
     (let p = EscapedPath env (Path u) in
        (if Scheme u \<noteq> [] then Scheme u @ '':'' else []) @
        (if Scheme u \<noteq> [] \<or> Host u \<noteq> []
         then (if Host u \<noteq> [] \<or> Path u \<noteq> [] then ''//'' else []) @ Host u
         else []) @
        (if p \<noteq> [] \<and> hd p \<noteq> CHR ''/'' \<and> Host u \<noteq> [] then ''/'' else []) @
        (if Scheme u = [] \<and> Host u = [] \<and> CHR '':'' \<in> set (takeWhile (\<lambda>c. c \<noteq> CHR ''/'') p)
         then ''./'' else []) @
        p @
        (if ForceQuery u \<or> RawQuery u \<noteq> [] then ''?'' @ RawQuery u else []))"

text \<open>\<open>proxyReq.Header.Set(k, v)\<close>: a write to the header map at address \<open>a\<close>.\<close>

definition set_header :: "addr \<Rightarrow> string \<Rightarrow> string \<Rightarrow> state \<Rightarrow> state" where
  "set_header a k v s = s\<lparr>headers := (headers s)(a := Header_Set (headers s a) k v)\<rparr>"

text \<open>
  Lines 95 to 114, the login branch. The decoder reads from \<open>req.Body\<close>, the stream the
  outbound request shares; a decoding error is \<open>log.Panic\<close>. \<open>foundIndDB\<close> is the
  constant \<open>true\<close> of line 110. The log lines are left out here and below: the state
  has no log.
\<close>

definition login :: "world \<Rightarrow> Request \<Rightarrow> ProxyRequest \<Rightarrow> state \<Rightarrow> failure option \<times> state" where
  "login env req proxyReq s =
     (if Method req = ''POST'' \<and> Contains (Path (urls s (URL req))) ''/login'' then
        (case Decode env (streams s (Body req)) of
           (n, r) \<Rightarrow>
             (let s1 = s\<lparr>streams := (streams s)(Body req := drop n (streams s (Body req)))\<rparr>
              in case r of
                   None \<Rightarrow> (Some MalformedPayload, s1)
                 | Some us \<Rightarrow>
                     (let foundIndDB = True
                      in (None,
                          if foundIndDB
                          then set_header (pHeader proxyReq) fbAuthHeader (Username us) s1
                          else s1))))
      else (None, s))"

text \<open>
  Lines 117 to 171, the command branch: the scheme becomes \<open>ws\<close>, the caller's
  connection is upgraded (on an error the handler logs and returns; what the upgrader
  itself has answered the caller is not modelled), the backend is dialled (on an error
  \<open>log.Fatal\<close>), the text message \<open>message\<close> is written to the caller, and the handler
  returns. The relay of lines 139 to 169 is commented out, and nothing closes either
  connection.
\<close>

definition command :: "world \<Rightarrow> Request \<Rightarrow> state \<Rightarrow> outcome \<times> state" where
  "command env req s =
     (let s1 = s\<lparr>urls := (urls s)(URL req := (urls s (URL req))\<lparr>Scheme := ''ws''\<rparr>)\<rparr>
      in case Upgrade env of
           None \<Rightarrow> (Returned, s1)
         | Some from_caller \<Rightarrow>
             (let s2 = s1\<lparr>clientC := Some \<lparr>inbox = from_caller, outbox = [], closed = False\<rparr>\<rparr>
              in case Dial env (URL_String env (urls s2 (URL req))) of
                   None \<Rightarrow> (Exited DialFailure, s2)
                 | Some from_backend \<Rightarrow>
                     (let s3 = s2\<lparr>fbC := Some \<lparr>inbox = from_backend, outbox = [], closed = False\<rparr>\<rparr>
                      in if WriteMessage_fails env then (Returned, s3)
                         else (Returned,
                               s3\<lparr>clientC := Some \<lparr>inbox = from_caller,
                                                    outbox = [(TextMessage, ''message'')],
                                                    closed = False\<rparr>\<rparr>))))"

text \<open>
  Lines 190 to 199, the header copy. The inner loop stops at the first value of
  \<open>Content-Type\<close> when the extension maps to \<open>text/css\<close>, having \<open>Set\<close> it; every other
  value is \<open>Add\<close>ed.
\<close>

fun copy_values :: "world \<Rightarrow> string \<Rightarrow> string \<Rightarrow> string list \<Rightarrow> header \<Rightarrow> header" where
  "copy_values env ext hname [] h = h"
| "copy_values env ext hname (v # vs) h =
     (if hname = ''Content-Type'' \<and> TypeByExtension env ext = ''text/css''
      then Header_Set h hname v
      else copy_values env ext hname vs (Header_Add h hname v))"

fun copy_headers :: "world \<Rightarrow> string \<Rightarrow> (string \<times> string list) list \<Rightarrow> header \<Rightarrow> header" where
  "copy_headers env ext [] h = h"
| "copy_headers env ext ((hname, vs) # rest) h =
     copy_headers env ext rest (copy_values env ext hname vs h)"

text \<open>
  The calls of \<open>mime.TypeByExtension\<close> that the same two loops make, as the list of
  their arguments. The condition of line 193 is \<open>header == "Content-Type" && ...\<close>, so
  the call is made in every iteration of the inner loop under the name \<open>Content-Type\<close>
  and in no other; after the \<open>break\<close> there is no further iteration.
\<close>

fun ask_values :: "world \<Rightarrow> string \<Rightarrow> string \<Rightarrow> string list \<Rightarrow> string list" where
  "ask_values env ext hname [] = []"
| "ask_values env ext hname (v # vs) =
     (if hname = ''Content-Type''
      then ext # (if TypeByExtension env ext = ''text/css'' then []
                  else ask_values env ext hname vs)
      else ask_values env ext hname vs)"

fun ask_headers :: "world \<Rightarrow> string \<Rightarrow> (string \<times> string list) list \<Rightarrow> string list" where
  "ask_headers env ext [] = []"
| "ask_headers env ext ((hname, vs) # rest) =
     ask_values env ext hname vs @ ask_headers env ext rest"

text \<open>
  \<open>io.Copy(w, proxyRes.Body)\<close>: the handler never calls \<open>w.WriteHeader\<close>, so the status
  line is the implicit \<open>200\<close> that the first write sends together with the header set
  as it stands (for an empty body the server sends the same when the handler returns);
  then the body bytes.
\<close>

definition io_Copy :: "string \<Rightarrow> state \<Rightarrow> state" where
  "io_Copy body s =
     (let s1 = (if w_status s = None
                then s\<lparr>w_status := Some 200, w_sent_header := w_Header s\<rparr>
                else s)
      in s1\<lparr>w_body := w_body s1 @ body\<rparr>)"

text \<open>
  Lines 173 to 204, the forward and the relay of the response. \<open>client.Do\<close> sends what
  is left of the body stream; an error is \<open>log.Panic\<close>. The extension is \<open>.\<close> and the last
  piece of the URL string split on \<open>.\<close>; the index \<open>len(uparts)-1\<close> is out of range
  for an empty list. The response body is taken as read in full, and its deferred
  \<open>Close\<close> is left out. The calls of \<open>mime.TypeByExtension\<close> made by the header copy
  are appended to \<open>mime_asked\<close>.
\<close>

definition relay :: "world \<Rightarrow> Request \<Rightarrow> ProxyRequest \<Rightarrow> state \<Rightarrow> outcome \<times> state" where
  "relay env req proxyReq s =
     (let sent = \<lparr>fMethod = pMethod proxyReq, fURL = pURL proxyReq,
                  fHeader = headers s (pHeader proxyReq),
                  fBody = streams s (pBody proxyReq)\<rparr>;
          s1 = s\<lparr>streams := (streams s)(pBody proxyReq := []),
                 forwarded := forwarded s @ [sent]\<rparr>
      in case client_Do env sent of
           None \<Rightarrow> (Panicked ClientDoError, s1)
         | Some proxyRes \<Rightarrow>
             (let uparts = Split (URL_String env (urls s1 (URL req))) (CHR ''.'')
              in if uparts = [] then (Panicked IndexOutOfRange, s1)
                 else
                   (let ext = ''.'' @ uparts ! (length uparts - 1);
                        s2 = s1\<lparr>w_Header := copy_headers env ext (RespHeader proxyRes) (w_Header s1),
                                mime_asked := mime_asked s1 @ ask_headers env ext (RespHeader proxyRes)\<rparr>
                    in (Returned, io_Copy (RespBody proxyRes) s2))))"

text \<open>
  Lines 76 to 91, the outbound request. \<open>url := req.URL\<close> copies the pointer, so lines
  78 and 79 write the backend's scheme and host into the caller's URL object.
  \<open>http.NewRequest\<close> gets the method, the URL string and \<open>req.Body\<close> itself (an error is
  \<open>log.Panic\<close>); \<open>req.Header.Clone()\<close> allocates a new map, in which \<open>Host\<close> and
  \<open>X-Forwarded-For\<close> are set.
\<close>

definition to_backend :: "Url \<Rightarrow> Url" where
  "to_backend u = u\<lparr>Scheme := ''http'', Host := ''localhost:8080''\<rparr>"

definition prepare :: "world \<Rightarrow> Request \<Rightarrow> state \<Rightarrow> ProxyRequest option \<times> state" where
  "prepare env req s =
     (let s1 = s\<lparr>urls := (urls s)(URL req := to_backend (urls s (URL req)))\<rparr>;
          target = URL_String env (urls s1 (URL req))
      in if NewRequest_fails env (Method req) target then (None, s1)
         else
           (let hp = next_addr s1;
                proxyReq = \<lparr>pMethod = Method req, pURL = target, pHeader = hp, pBody = Body req\<rparr>;
                s2 = s1\<lparr>headers := (headers s1)(hp := Header_Clone (headers s1 (Header req))),
                        next_addr := Suc hp\<rparr>;
                s3 = set_header hp ''Host'' (ReqHost req) s2;
                s4 = set_header hp ''X-Forwarded-For'' (RemoteAddr req) s3
            in (Some proxyReq, s4)))"

text \<open>The handler: the four parts in the order of the source.\<close>

definition fileBrowser :: "world \<Rightarrow> Request \<Rightarrow> state \<Rightarrow> outcome \<times> state" where
  "fileBrowser env req s =
     (case prepare env req s of
        (None, s1) \<Rightarrow> (Panicked NewRequestError, s1)
      | (Some proxyReq, s4) \<Rightarrow>
          (case login env req proxyReq s4 of
             (Some f, s5) \<Rightarrow> (Panicked f, s5)
           | (None, s5) \<Rightarrow>
               if Contains (Path (urls s5 (URL req))) ''api/command''
               then command env req s5
               else relay env req proxyReq s5))"

section \<open>The listening process\<close>

text \<open>
  \<open>http.ListenAndServe\<close> of \<open>StartBrowser\<close>, on the requests the route hands to
  \<open>fileBrowser\<close>, one after the other, each with its own world and state. The server
  recovers a handler's panic and goes on with the next request; \<open>os.Exit\<close> ends the
  process, and no later request is served. The result is the outcome of every request
  served and whether the process is still alive.
\<close>

fun ListenAndServe :: "(world \<times> Request \<times> state) list \<Rightarrow> (outcome \<times> state) list \<times> bool" where
  "ListenAndServe [] = ([], True)"
| "ListenAndServe ((env, req, s) # rest) =
     (case fileBrowser env req s of
        (oc, s') \<Rightarrow>
          (case oc of
             Exited f \<Rightarrow> ([(oc, s')], False)
           | Panicked f \<Rightarrow> (case ListenAndServe rest of (served, alive) \<Rightarrow> ((oc, s') # served, alive))
           | Returned \<Rightarrow> (case ListenAndServe rest of (served, alive) \<Rightarrow> ((oc, s') # served, alive))))"

section \<open>The raw forwarder: Forwarding, handleRequest, copyIO\<close>

text \<open>
  A pair of connections, \<open>conn\<close> to side A (the caller) and \<open>proxy\<close> to side B (the
  backend), and the two \<open>copyIO\<close> goroutines on it:
  \<^item> \<open>a_unread\<close>: the bytes side A has sent that the forwarder has not read yet, and
    \<open>a_fin\<close>: side A ends its stream after them, so that a read finds end of file once
    they are read (likewise \<open>b_unread\<close>, \<open>b_fin\<close>);
  \<^item> \<open>ab_buf\<close>: the chunk \<open>io.Copy(proxy, conn)\<close> has read and not written yet
    (likewise \<open>ba_buf\<close>);
  \<^item> \<open>to_b\<close>: the bytes written to side B (likewise \<open>to_a\<close>);
  \<^item> \<open>a_closed\<close>, \<open>b_closed\<close>: \<open>Close\<close> has been called on the connection;
  \<^item> \<open>ab_done\<close>: \<open>copyIO(conn, proxy)\<close> has returned, and \<open>ab_eof\<close>: its copy ended at
    end of file and not on an error (likewise \<open>ba_done\<close>, \<open>ba_eof\<close>).
\<close>

record pair =
  a_unread :: string
  a_fin :: bool
  b_unread :: string
  b_fin :: bool
  ab_buf :: string
  ba_buf :: string
  to_a :: string
  to_b :: string
  a_closed :: bool
  b_closed :: bool
  ab_done :: bool
  ab_eof :: bool
  ba_done :: bool
  ba_eof :: bool

definition start_pair :: "string \<Rightarrow> bool \<Rightarrow> string \<Rightarrow> bool \<Rightarrow> pair" where
  "start_pair from_a fin_a from_b fin_b =
     \<lparr>a_unread = from_a, a_fin = fin_a, b_unread = from_b, b_fin = fin_b,
      ab_buf = [], ba_buf = [], to_a = [], to_b = [],
      a_closed = False, b_closed = False,
      ab_done = False, ab_eof = False, ba_done = False, ba_eof = False\<rparr>"

text \<open>
  The deferred calls of \<open>copyIO\<close>: when \<open>io.Copy\<close> returns, for whatever reason, both
  connections are closed.
\<close>

definition ab_return :: "bool \<Rightarrow> pair \<Rightarrow> pair" where
  "ab_return eof p = p\<lparr>ab_buf := [], a_closed := True, b_closed := True, ab_done := True, ab_eof := eof\<rparr>"

definition ba_return :: "bool \<Rightarrow> pair \<Rightarrow> pair" where
  "ba_return eof p = p\<lparr>ba_buf := [], a_closed := True, b_closed := True, ba_done := True, ba_eof := eof\<rparr>"

text \<open>
  One step of either goroutine. \<open>io.Copy\<close> reads a chunk from an open source, writes it
  to an open destination, and returns at end of file or at the first error of a read or
  a write (on a closed connection every read and write is an error; a failing write may
  have written a part of the chunk).
\<close>

inductive step :: "pair \<Rightarrow> pair \<Rightarrow> bool" where
  ab_read:
    "\<not> ab_done p \<Longrightarrow> \<not> a_closed p \<Longrightarrow> ab_buf p = [] \<Longrightarrow> chunk \<noteq> [] \<Longrightarrow>
     a_unread p = chunk @ rest \<Longrightarrow>
     step p (p\<lparr>a_unread := rest, ab_buf := chunk\<rparr>)"
| ab_write:
    "\<not> ab_done p \<Longrightarrow> \<not> b_closed p \<Longrightarrow> ab_buf p \<noteq> [] \<Longrightarrow>
     step p (p\<lparr>to_b := to_b p @ ab_buf p, ab_buf := []\<rparr>)"
| ab_end_of_file:
    "\<not> ab_done p \<Longrightarrow> \<not> a_closed p \<Longrightarrow> ab_buf p = [] \<Longrightarrow> a_unread p = [] \<Longrightarrow> a_fin p \<Longrightarrow>
     step p (ab_return True p)"
| ab_read_error:
    "\<not> ab_done p \<Longrightarrow> ab_buf p = [] \<Longrightarrow>
     step p (ab_return False p)"
| ab_write_error:
    "\<not> ab_done p \<Longrightarrow> ab_buf p = written @ lost \<Longrightarrow> lost \<noteq> [] \<Longrightarrow>
     step p (ab_return False (p\<lparr>to_b := to_b p @ (if b_closed p then [] else written)\<rparr>))"
| ba_read:
    "\<not> ba_done p \<Longrightarrow> \<not> b_closed p \<Longrightarrow> ba_buf p = [] \<Longrightarrow> chunk \<noteq> [] \<Longrightarrow>
     b_unread p = chunk @ rest \<Longrightarrow>
     step p (p\<lparr>b_unread := rest, ba_buf := chunk\<rparr>)"
| ba_write:
    "\<not> ba_done p \<Longrightarrow> \<not> a_closed p \<Longrightarrow> ba_buf p \<noteq> [] \<Longrightarrow>
     step p (p\<lparr>to_a := to_a p @ ba_buf p, ba_buf := []\<rparr>)"
| ba_end_of_file:
    "\<not> ba_done p \<Longrightarrow> \<not> b_closed p \<Longrightarrow> ba_buf p = [] \<Longrightarrow> b_unread p = [] \<Longrightarrow> b_fin p \<Longrightarrow>
     step p (ba_return True p)"
| ba_read_error:
    "\<not> ba_done p \<Longrightarrow> ba_buf p = [] \<Longrightarrow>
     step p (ba_return False p)"
| ba_write_error:
    "\<not> ba_done p \<Longrightarrow> ba_buf p = written @ lost \<Longrightarrow> lost \<noteq> [] \<Longrightarrow>
     step p (ba_return False (p\<lparr>to_a := to_a p @ (if a_closed p then [] else written)\<rparr>))"

text \<open>The states a pair can reach from \<open>p\<close>, under every schedule of the two goroutines.\<close>

inductive reaches :: "pair \<Rightarrow> pair \<Rightarrow> bool" where
  reaches_refl: "reaches p p"
| reaches_step: "reaches p q \<Longrightarrow> step q r \<Longrightarrow> reaches p r"

text \<open>
  \<open>handleRequest\<close>: the dial to the backend, \<open>panic\<close> on its error, and the two
  goroutines on the new pair.
\<close>

definition handleRequest :: "bool \<Rightarrow> string \<Rightarrow> bool \<Rightarrow> string \<Rightarrow> bool \<Rightarrow> failure + pair" where
  "handleRequest dial_fails from_a fin_a from_b fin_b =
     (if dial_fails then Inl DialFailure else Inr (start_pair from_a fin_a from_b fin_b))"

text \<open>
  \<open>Forwarding\<close>: the accept loop. An accept error is \<open>panic\<close>; \<open>handleRequest\<close> runs in a
  goroutine of its own, where nothing recovers its panic, so that panic ends the process
  too. The result is the number of connections handed to the relay and whether the
  process is still alive after the accepts listed.
\<close>

datatype accepted = AcceptError | Conn bool

fun Forwarding :: "accepted list \<Rightarrow> nat \<times> bool" where
  "Forwarding [] = (0, True)"
| "Forwarding (AcceptError # rest) = (0, False)"
| "Forwarding (Conn dial_fails # rest) =
     (case handleRequest dial_fails [] True [] True of
        Inl f \<Rightarrow> (0, False)
      | Inr p \<Rightarrow> (case Forwarding rest of (n, alive) \<Rightarrow> (Suc n, alive)))"

text \<open>
  What holds of a pair in every state it reaches, when side A sends \<open>from_a\<close> and side
  B sends \<open>from_b\<close>: while a copy runs, what it has written, what it holds and what
  is still unread make up what was sent; what has been written is a prefix of what was
  sent; a copy that ended at end of file has written everything; and once either
  \<open>copyIO\<close> has returned, both connections are closed.
\<close>

definition relay_inv :: "string \<Rightarrow> string \<Rightarrow> pair \<Rightarrow> bool" where
  "relay_inv from_a from_b p =
     ((ab_done p \<or> to_b p @ ab_buf p @ a_unread p = from_a) \<and>
      (ba_done p \<or> to_a p @ ba_buf p @ b_unread p = from_b) \<and>
      prefix (to_b p) from_a \<and> prefix (to_a p) from_b \<and>
      (if ab_eof p then ab_done p \<and> to_b p = from_a else True) \<and>
      (if ba_eof p then ba_done p \<and> to_a p = from_b else True) \<and>
      (if ab_done p \<or> ba_done p then a_closed p \<and> b_closed p else True))"

text \<open>
  The state after one run of a pair on which side A sends \<open>ping\<close> and ends its stream and
  side B sends \<open>pong\<close>: both copies move their bytes, then the copy from A finds end of
  file.
\<close>

definition ping_run :: pair where
  "ping_run =
     \<lparr>a_unread = [], a_fin = True, b_unread = [], b_fin = False,
      ab_buf = [], ba_buf = [], to_a = ''pong'', to_b = ''ping'',
      a_closed = True, b_closed = True,
      ab_done = True, ab_eof = True, ba_done = False, ba_eof = False\<rparr>"

section \<open>Concrete worlds and requests\<close>

text \<open>
  An instance of the \<open>Decode\<close> parameter for the login payload, used where the handler
  is evaluated at a concrete request: it reads one JSON object whose members are strings
  without escapes, stops after the closing brace, and fills \<open>Username\<close> and \<open>Password\<close>
  from the members \<open>username\<close> and \<open>password\<close> (the last one of each name; the empty
  string when there is none). Every other input is an error. It returns the number of
  bytes it has read.
\<close>

datatype scan =
  ExpectOpen | ExpectKeyOrClose | ExpectKey | InKey | ExpectColon | ExpectValue | InValue
  | ExpectCommaOrClose

definition is_space :: "char \<Rightarrow> bool" where
  "is_space c = (c \<in> set [CHR '' '', CHR 0x09, CHR 0x0A, CHR 0x0D])"

fun scan_object ::
  "scan \<Rightarrow> string \<Rightarrow> string \<Rightarrow> (string \<times> string) list \<Rightarrow> nat \<Rightarrow> string \<Rightarrow>
   nat \<times> (string \<times> string) list option" where
  "scan_object st k v fs n [] = (n, None)"
| "scan_object ExpectOpen k v fs n (c # cs) =
     (if is_space c then scan_object ExpectOpen k v fs (Suc n) cs
      else if c = CHR ''{'' then scan_object ExpectKeyOrClose k v fs (Suc n) cs
      else (Suc n, None))"
| "scan_object ExpectKeyOrClose k v fs n (c # cs) =
     (if is_space c then scan_object ExpectKeyOrClose k v fs (Suc n) cs
      else if c = CHR 0x22 then scan_object InKey [] v fs (Suc n) cs
      else if c = CHR ''}'' then (Suc n, Some fs)
      else (Suc n, None))"
| "scan_object ExpectKey k v fs n (c # cs) =
     (if is_space c then scan_object ExpectKey k v fs (Suc n) cs
      else if c = CHR 0x22 then scan_object InKey [] v fs (Suc n) cs
      else (Suc n, None))"
| "scan_object InKey k v fs n (c # cs) =
     (if c = CHR 0x22 then scan_object ExpectColon k v fs (Suc n) cs
      else if c = CHR 0x5C then (Suc n, None)
      else scan_object InKey (k @ [c]) v fs (Suc n) cs)"
| "scan_object ExpectColon k v fs n (c # cs) =
     (if is_space c then scan_object ExpectColon k v fs (Suc n) cs
      else if c = CHR '':'' then scan_object ExpectValue k v fs (Suc n) cs
      else (Suc n, None))"
| "scan_object ExpectValue k v fs n (c # cs) =
     (if is_space c then scan_object ExpectValue k v fs (Suc n) cs
      else if c = CHR 0x22 then scan_object InValue k [] fs (Suc n) cs
      else (Suc n, None))"
| "scan_object InValue k v fs n (c # cs) =
     (if c = CHR 0x22 then scan_object ExpectCommaOrClose k v (fs @ [(k, v)]) (Suc n) cs
      else if c = CHR 0x5C then (Suc n, None)
      else scan_object InValue k (v @ [c]) fs (Suc n) cs)"
| "scan_object ExpectCommaOrClose k v fs n (c # cs) =
     (if is_space c then scan_object ExpectCommaOrClose k v fs (Suc n) cs
      else if c = CHR '','' then scan_object ExpectKey k v fs (Suc n) cs
      else if c = CHR ''}'' then (Suc n, Some fs)
      else (Suc n, None))"

definition member_of :: "(string \<times> string) list \<Rightarrow> string \<Rightarrow> string" where
  "member_of fs name = (case map_of (rev fs) name of None \<Rightarrow> [] | Some v \<Rightarrow> v)"

definition Decode_object :: "string \<Rightarrow> nat \<times> User option" where
  "Decode_object body =
     (case scan_object ExpectOpen [] [] [] 0 body of
        (n, None) \<Rightarrow> (n, None)
      | (n, Some fs) \<Rightarrow>
          (n, Some \<lparr>Username = member_of fs ''username'', Password = member_of fs ''password''\<rparr>))"

text \<open>
  \<open>mime.TypeByExtension\<close> on the table the Go library starts with: the extension is
  looked up as it is and, the table being in lower case, in lower case; an extension
  the table does not have gives the empty string. Every \<open>text/\<close> type of the table
  carries a \<open>charset\<close> parameter, and the library adds one to every \<open>text/\<close> type
  it reads from a table of the platform, so that the answer for \<open>.css\<close> is
  \<open>text/css; charset=utf-8\<close>.
\<close>

definition builtinTypesLower :: "(string \<times> string) list" where
  "builtinTypesLower =
     [(''.avif'', ''image/avif''),
      (''.css'', ''text/css; charset=utf-8''),
      (''.gif'', ''image/gif''),
      (''.htm'', ''text/html; charset=utf-8''),
      (''.html'', ''text/html; charset=utf-8''),
      (''.jpeg'', ''image/jpeg''),
      (''.jpg'', ''image/jpeg''),
      (''.js'', ''text/javascript; charset=utf-8''),
      (''.json'', ''application/json''),
      (''.mjs'', ''text/javascript; charset=utf-8''),
      (''.pdf'', ''application/pdf''),
      (''.png'', ''image/png''),
      (''.svg'', ''image/svg+xml''),
      (''.wasm'', ''application/wasm''),
      (''.webp'', ''image/webp''),
      (''.xml'', ''text/xml; charset=utf-8'')]"

definition mime_builtin :: "string \<Rightarrow> string" where
  "mime_builtin ext =
     (case map_of builtinTypesLower (map to_lower ext) of None \<Rightarrow> [] | Some ty \<Rightarrow> ty)"

text \<open>
  A world in which every call succeeds: paths need no escaping, the backend answers
  \<open>res\<close>, the caller sends \<open>from_caller\<close> on its upgraded connection and the backend
  nothing. The media types are the library's.
\<close>

definition world_of :: "Response \<Rightarrow> message list \<Rightarrow> world" where
  "world_of res from_caller =
     \<lparr>EscapedPath = (\<lambda>p. p), NewRequest_fails = (\<lambda>m u. False), Decode = Decode_object,
      Upgrade = Some from_caller, Dial = (\<lambda>u. Some []), WriteMessage_fails = False,
      client_Do = (\<lambda>r. Some res), TypeByExtension = mime_builtin\<rparr>"

text \<open>
  A request as the server hands it to the handler, with its URL object, header map and
  body stream at address 0 of the store, and the state before the call: nothing written
  to \<open>w\<close>, nothing forwarded, no WebSocket connection, no call of the media type
  table.
\<close>

definition request_of :: "string \<Rightarrow> Request" where
  "request_of m =
     \<lparr>Method = m, URL = 0, Header = 0, Body = 0,
      ReqHost = ''files.example.org'', RemoteAddr = ''10.0.0.7:51234''\<rparr>"

definition state_of :: "string \<Rightarrow> string \<Rightarrow> header \<Rightarrow> string \<Rightarrow> state" where
  "state_of path query h body =
     \<lparr>urls = (\<lambda>a. \<lparr>Scheme = [], Host = [], Path = path, ForceQuery = False,
                     RawQuery = query\<rparr>),
      headers = (\<lambda>a. h), streams = (\<lambda>a. body), next_addr = 1,
      w_Header = Map.empty, w_status = None, w_sent_header = Map.empty, w_body = [],
      forwarded = [], clientC = None, fbC = None, mime_asked = []\<rparr>"

text \<open>
  The JSON text \<open>{"username":"u","password":"p"}\<close> of a login payload, and a backend
  response with status 200, no header and an empty body.
\<close>

definition dq :: string where
  "dq = [CHR 0x22]"

definition login_json :: "string \<Rightarrow> string \<Rightarrow> string" where
  "login_json u p =
     ''{'' @ dq @ ''username'' @ dq @ '':'' @ dq @ u @ dq @ '','' @
     dq @ ''password'' @ dq @ '':'' @ dq @ p @ dq @ ''}''"

definition ok_response :: Response where
  "ok_response = \<lparr>StatusCode = 200, RespHeader = [], RespBody = []\<rparr>"

text \<open>
  A backend response to a stylesheet request with two conflicting values of
  \<open>Content-Type\<close> and two values of \<open>Vary\<close>.
\<close>

definition css_response :: Response where
  "css_response =
     \<lparr>StatusCode = 200,
      RespHeader = [(''Content-Type'', [''text/plain'', ''text/css'']), (''Vary'', [''Origin'', ''Accept''])],
      RespBody = ''body{}''\<rparr>"

text \<open>
  The state before the request \<open>GET /admin/static/style.css?\<close>, whose target ends in
  a bare \<open>?\<close>.
\<close>

definition forced_query_state :: state where
  "forced_query_state =
     (state_of ''/admin/static/style.css'' [] Map.empty [])
       \<lparr>urls := (\<lambda>a. \<lparr>Scheme = [], Host = [], Path = ''/admin/static/style.css'',
                       ForceQuery = True, RawQuery = []\<rparr>)\<rparr>"

section \<open>Strings: what Contains and Split compute\<close>

lemma Contains_iff_sublist: "Contains s substr \<longleftrightarrow> sublist substr s"
  by (induction s) (auto simp: sublist_Cons_right)

lemma Split_not_Nil: "Split s sep \<noteq> []"
  by (induction s) (auto split: list.splits)

lemma Split_no_sep: "sep \<notin> set s \<Longrightarrow> Split s sep = [s]"
  by (induction s) auto

lemma Split_append: "Split (pre @ sep # seg) sep = Split pre sep @ Split seg sep"
proof (induction pre)
  case Nil
  then show ?case by simp
next
  case (Cons c pre)
  obtain p ps where "Split pre sep = p # ps"
    using Split_not_Nil[of pre sep] by (cases "Split pre sep") auto
  with Cons show ?case by simp
qed

lemma last_Split_append: "sep \<notin> set seg \<Longrightarrow> last (Split (pre @ sep # seg) sep) = seg"
  by (simp add: Split_append Split_no_sep)

lemma nth_last_Split: "Split s sep ! (length (Split s sep) - Suc 0) = last (Split s sep)"
  by (simp add: last_conv_nth Split_not_Nil)

lemma canon_Host: "CanonicalMIMEHeaderKey ''Host'' = ''Host''"
  by code_simp
lemma canon_XFF: "CanonicalMIMEHeaderKey ''X-Forwarded-For'' = ''X-Forwarded-For''"
  by code_simp
lemma canon_CT: "CanonicalMIMEHeaderKey ''Content-Type'' = ''Content-Type''"
  by code_simp
lemma canon_auth: "CanonicalMIMEHeaderKey fbAuthHeader = ''X-Generic-Appname''"
  by code_simp

lemma canon_Vary: "CanonicalMIMEHeaderKey ''Vary'' = ''Vary''"
  by code_simp

text \<open>
  No extension has the media type \<open>text/css\<close> in the library's table: the entry of
  \<open>.css\<close> carries its \<open>charset\<close>.
\<close>

lemma mime_builtin_never_css: "mime_builtin ext \<noteq> ''text/css''"
  by (simp add: mime_builtin_def builtinTypesLower_def)

lemma mime_builtin_css: "mime_builtin ''.css'' = ''text/css; charset=utf-8''"
  by code_simp

lemma copy_values_at:
  assumes "CanonicalMIMEHeaderKey hname = hname"
  shows "copy_values env ext hname vs h k =
     (if k \<noteq> hname \<or> vs = [] then h k
      else if hname = ''Content-Type'' \<and> TypeByExtension env ext = ''text/css'' then Some [hd vs]
      else Some ((case h k of None \<Rightarrow> [] | Some ws \<Rightarrow> ws) @ vs))"
  using assms
  by (induction vs arbitrary: h) (auto simp: Header_Set_def Header_Add_def split: option.splits)

lemma copy_headers_at:
  assumes "distinct (map fst hs)" and "list_all (\<lambda>e. CanonicalMIMEHeaderKey (fst e) = fst e) hs"
  shows "copy_headers env ext hs h k =
     (case map_of hs k of
        None \<Rightarrow> h k
      | Some vs \<Rightarrow>
          if vs = [] then h k
          else if k = ''Content-Type'' \<and> TypeByExtension env ext = ''text/css'' then Some [hd vs]
          else Some ((case h k of None \<Rightarrow> [] | Some ws \<Rightarrow> ws) @ vs))"
  using assms
proof (induction hs arbitrary: h)
  case Nil
  then show ?case by simp
next
  case (Cons e hs)
  obtain hname vs where e: "e = (hname, vs)" by (cases e)
  have canon: "CanonicalMIMEHeaderKey hname = hname" using Cons.prems e by simp
  have notin: "map_of hs hname = None" using Cons.prems e by (simp add: map_of_eq_None_iff)
  have IH: "copy_headers env ext hs (copy_values env ext hname vs h) k =
     (case map_of hs k of
        None \<Rightarrow> copy_values env ext hname vs h k
      | Some vs' \<Rightarrow>
          if vs' = [] then copy_values env ext hname vs h k
          else if k = ''Content-Type'' \<and> TypeByExtension env ext = ''text/css'' then Some [hd vs']
          else Some ((case copy_values env ext hname vs h k of None \<Rightarrow> [] | Some ws \<Rightarrow> ws) @ vs'))"
    using Cons.IH[of "copy_values env ext hname vs h"] Cons.prems by simp
  show ?case
  proof (cases "k = hname")
    case True
    then show ?thesis using IH notin e by (simp add: copy_values_at[OF canon])
  next
    case False
    then have "copy_values env ext hname vs h k = h k"
      by (simp add: copy_values_at[OF canon])
    with IH e False show ?thesis by (cases "map_of hs k") simp_all
  qed
qed

section \<open>The parts of the handler\<close>

text \<open>
  What each part of the handler leaves alone and what it writes, and the four ways a
  call of the handler can go: \<open>http.NewRequest\<close> fails, the login body does not decode,
  the command branch runs, or the request is forwarded and the response relayed.
\<close>

lemma prepare_frame:
  assumes "prepare env req s = (r, s4)"
  shows "urls s4 = (urls s)(URL req := to_backend (urls s (URL req)))"
    and "streams s4 = streams s" and "forwarded s4 = forwarded s"
    and "w_Header s4 = w_Header s" and "w_status s4 = w_status s"
    and "w_sent_header s4 = w_sent_header s" and "w_body s4 = w_body s"
    and "clientC s4 = clientC s" and "fbC s4 = fbC s"
    and "a < next_addr s \<Longrightarrow> headers s4 a = headers s a"
    and "next_addr s \<le> next_addr s4"
    and "mime_asked s4 = mime_asked s"
  using assms
  by (auto simp: prepare_def Let_def set_header_def split: if_splits)

lemma prepare_None:
  "prepare env req s = (None, s1) \<longleftrightarrow>
     NewRequest_fails env (Method req) (URL_String env (to_backend (urls s (URL req)))) \<and>
     s1 = s\<lparr>urls := (urls s)(URL req := to_backend (urls s (URL req)))\<rparr>"
  by (auto simp: prepare_def Let_def)

lemma prepare_Some:
  assumes "prepare env req s = (Some preq, s4)"
  shows "pMethod preq = Method req"
    and "pURL preq = URL_String env (to_backend (urls s (URL req)))"
    and "pHeader preq = next_addr s" and "pBody preq = Body req"
    and "headers s4 (next_addr s) =
           Header_Set (Header_Set (Header_Clone (headers s (Header req))) ''Host'' (ReqHost req))
             ''X-Forwarded-For'' (RemoteAddr req)"
    and "next_addr s4 = Suc (next_addr s)"
  using assms
  by (auto simp: prepare_def Let_def set_header_def split: if_splits)

lemma login_frame:
  assumes "login env req preq s = (r, s5)"
  shows "urls s5 = urls s" and "forwarded s5 = forwarded s"
    and "w_Header s5 = w_Header s" and "w_status s5 = w_status s"
    and "w_sent_header s5 = w_sent_header s" and "w_body s5 = w_body s"
    and "clientC s5 = clientC s" and "fbC s5 = fbC s" and "next_addr s5 = next_addr s"
    and "a \<noteq> pHeader preq \<Longrightarrow> headers s5 a = headers s a"
    and "b \<noteq> Body req \<Longrightarrow> streams s5 b = streams s b"
    and "mime_asked s5 = mime_asked s"
  using assms
  by (auto simp: login_def Let_def set_header_def split: if_splits prod.splits option.splits)

lemma login_skip:
  "\<not> (Method req = ''POST'' \<and> Contains (Path (urls s (URL req))) ''/login'') \<Longrightarrow>
   login env req preq s = (None, s)"
  by (auto simp: login_def)

lemma login_decoded:
  assumes "Method req = ''POST''" "Contains (Path (urls s (URL req))) ''/login''"
      and "Decode env (streams s (Body req)) = (n, Some us)"
  shows "login env req preq s =
           (None, set_header (pHeader preq) fbAuthHeader (Username us)
                    (s\<lparr>streams := (streams s)(Body req := drop n (streams s (Body req)))\<rparr>))"
  using assms by (simp add: login_def)

lemma login_malformed:
  assumes "Method req = ''POST''" "Contains (Path (urls s (URL req))) ''/login''"
      and "snd (Decode env (streams s (Body req))) = None"
  shows "fst (login env req preq s) = Some MalformedPayload"
  using assms by (auto simp: login_def Let_def split: prod.splits)

lemma login_Some:
  assumes "login env req preq s = (Some f, s5)"
  shows "f = MalformedPayload \<and> Method req = ''POST'' \<and>
         Contains (Path (urls s (URL req))) ''/login'' \<and>
         snd (Decode env (streams s (Body req))) = None"
  using assms by (auto simp: login_def Let_def split: if_splits prod.splits option.splits)

lemma relay_result:
  "relay env req preq s =
     (let sent = \<lparr>fMethod = pMethod preq, fURL = pURL preq,
                  fHeader = headers s (pHeader preq), fBody = streams s (pBody preq)\<rparr>;
          s1 = s\<lparr>streams := (streams s)(pBody preq := []), forwarded := forwarded s @ [sent]\<rparr>
      in case client_Do env sent of
           None \<Rightarrow> (Panicked ClientDoError, s1)
         | Some res \<Rightarrow>
             (Returned,
              io_Copy (RespBody res)
                (s1\<lparr>w_Header :=
                      copy_headers env (''.'' @ last (Split (URL_String env (urls s (URL req))) (CHR ''.'')))
                        (RespHeader res) (w_Header s),
                    mime_asked :=
                      mime_asked s @
                      ask_headers env (''.'' @ last (Split (URL_String env (urls s (URL req))) (CHR ''.'')))
                        (RespHeader res)\<rparr>)))"
  by (simp add: relay_def Let_def Split_not_Nil nth_last_Split split: option.splits)

lemma relay_frame:
  assumes "relay env req preq s = (oc, s')"
  shows "urls s' = urls s" and "headers s' = headers s" and "clientC s' = clientC s"
    and "fbC s' = fbC s"
    and "forwarded s' = forwarded s @ [\<lparr>fMethod = pMethod preq, fURL = pURL preq,
                  fHeader = headers s (pHeader preq), fBody = streams s (pBody preq)\<rparr>]"
  using assms
  by (auto simp: relay_result Let_def io_Copy_def split: option.splits if_splits)

lemma relay_Returned:
  assumes "relay env req preq s = (Returned, s')"
  shows "\<exists>res. client_Do env (last (forwarded s')) = Some res \<and>
           w_Header s' =
             copy_headers env (''.'' @ last (Split (URL_String env (urls s (URL req))) (CHR ''.'')))
               (RespHeader res) (w_Header s) \<and>
           w_body s' = w_body s @ RespBody res \<and>
           w_status s' = (if w_status s = None then Some 200 else w_status s) \<and>
           w_sent_header s' = (if w_status s = None then w_Header s' else w_sent_header s) \<and>
           mime_asked s' =
             mime_asked s @
             ask_headers env (''.'' @ last (Split (URL_String env (urls s (URL req))) (CHR ''.'')))
               (RespHeader res)"
  using assms
  by (auto simp: relay_result Let_def io_Copy_def split: option.splits if_splits)

lemma command_frame:
  assumes "command env req s = (oc, s')"
  shows "headers s' = headers s" and "forwarded s' = forwarded s" and "streams s' = streams s"
    and "w_Header s' = w_Header s" and "w_status s' = w_status s" and "w_body s' = w_body s"
    and "urls s' = (urls s)(URL req := (urls s (URL req))\<lparr>Scheme := ''ws''\<rparr>)"
  using assms
  by (auto simp: command_def Let_def split: option.splits if_splits)

lemma fileBrowser_cases:
  obtains (new_request) s1 where "prepare env req s = (None, s1)"
        "fileBrowser env req s = (Panicked NewRequestError, s1)"
    | (malformed) preq s4 f s5 where "prepare env req s = (Some preq, s4)"
        "login env req preq s4 = (Some f, s5)" "fileBrowser env req s = (Panicked f, s5)"
    | (command) preq s4 s5 where "prepare env req s = (Some preq, s4)"
        "login env req preq s4 = (None, s5)" "Contains (Path (urls s (URL req))) ''api/command''"
        "fileBrowser env req s = command env req s5"
    | (relay) preq s4 s5 where "prepare env req s = (Some preq, s4)"
        "login env req preq s4 = (None, s5)" "\<not> Contains (Path (urls s (URL req))) ''api/command''"
        "fileBrowser env req s = relay env req preq s5"
proof -
  obtain r s4 where p: "prepare env req s = (r, s4)" by (cases "prepare env req s")
  show thesis
  proof (cases r)
    case None
    with p show thesis by (intro new_request[of s4]) (simp_all add: fileBrowser_def)
  next
    case (Some preq)
    obtain l s5 where l: "login env req preq s4 = (l, s5)" by (cases "login env req preq s4")
    have path: "Path (urls s5 (URL req)) = Path (urls s (URL req))"
      using login_frame(1)[OF l] prepare_frame(1)[OF p] by (simp add: to_backend_def)
    show thesis
    proof (cases l)
      case None
      show thesis
      proof (cases "Contains (Path (urls s (URL req))) ''api/command''")
        case True
        with p Some l None path show thesis
          by (intro command[of preq s4 s5]) (simp_all add: fileBrowser_def)
      next
        case False
        with p Some l None path show thesis
          by (intro relay[of preq s4 s5]) (simp_all add: fileBrowser_def)
      qed
    next
      case (Some f)
      with p \<open>r = Some preq\<close> l show thesis
        by (intro malformed[of preq s4 f s5]) (simp_all add: fileBrowser_def)
    qed
  qed
qed

lemmas eval_defs = fileBrowser_def prepare_def login_def relay_def command_def world_of_def request_of_def
  state_of_def login_json_def dq_def ok_response_def to_backend_def
  URL_String_def Decode_object_def set_header_def is_space_def Let_def io_Copy_def mime_builtin_never_css
  Header_Set_def Header_Add_def Header_Clone_def member_of_def TextMessage_def
  handleRequest_def css_response_def canon_Host canon_XFF canon_auth canon_CT canon_Vary

section \<open>A login body that does not decode\<close>

text \<open>
  Claim C8, as stated, fails. The body \<open>{"username":"mallory","password":"guess"}}}} this
  is not JSON\<close> is not well-formed JSON, but \<open>Decode\<close> reads one JSON value off the
  front of the stream and never looks at what follows it: the login request returns
  normally and is forwarded, with the identity header set.
\<close>

theorem login_trailing_junk_forwarded_counterexample:
  "fst (fileBrowser (world_of ok_response []) (request_of ''POST'')
          (state_of ''/admin/api/login'' [] Map.empty
             (login_json ''mallory'' ''guess'' @ ''}}} this is not JSON''))) = Returned \<and>
   length (forwarded (snd (fileBrowser (world_of ok_response []) (request_of ''POST'')
          (state_of ''/admin/api/login'' [] Map.empty
             (login_json ''mallory'' ''guess'' @ ''}}} this is not JSON''))))) = 1 \<and>
   map (\<lambda>f. fHeader f ''X-Generic-Appname'')
     (forwarded (snd (fileBrowser (world_of ok_response []) (request_of ''POST'')
          (state_of ''/admin/api/login'' [] Map.empty
             (login_json ''mallory'' ''guess'' @ ''}}} this is not JSON''))))) =
     [Some [''mallory'']]"
  by (simp add: eval_defs)

text \<open>
  Claim C8, amended. A login request (method \<open>POST\<close>, a path containing \<open>/login\<close>) from
  whose body the decoder cannot decode a first JSON value fails and is never forwarded:
  the handler panics with the decoding error, \<open>MalformedPayload\<close> (with
  \<open>NewRequestError\<close> when \<open>http.NewRequest\<close> had already failed), nothing is handed to
  the backend, and nothing is written to the caller.
\<close>

theorem login_malformed_fails_unforwarded:
  assumes "Method req = ''POST''"
      and "Contains (Path (urls s (URL req))) ''/login''"
      and "snd (Decode env (streams s (Body req))) = None"
  shows "fst (fileBrowser env req s) =
           Panicked (if NewRequest_fails env (Method req)
                          (URL_String env (to_backend (urls s (URL req))))
                     then NewRequestError else MalformedPayload) \<and>
         forwarded (snd (fileBrowser env req s)) = forwarded s \<and>
         w_status (snd (fileBrowser env req s)) = w_status s \<and>
         w_body (snd (fileBrowser env req s)) = w_body s"
proof (cases rule: fileBrowser_cases[of env req s])
  case (new_request s1)
  then show ?thesis
    using prepare_frame[OF new_request(1)] by (simp add: prepare_None)
next
  case (malformed preq s4 f s5)
  have "\<not> NewRequest_fails env (Method req) (URL_String env (to_backend (urls s (URL req))))"
    using malformed(1) by (auto simp: prepare_def Let_def split: if_splits)
  moreover have "f = MalformedPayload" using login_Some[OF malformed(2)] by simp
  ultimately show ?thesis
    using malformed(3) prepare_frame[OF malformed(1)] login_frame[OF malformed(2)] by simp
next
  case (command preq s4 s5)
  have "Path (urls s4 (URL req)) = Path (urls s (URL req))"
    using prepare_frame(1)[OF command(1)] by (simp add: to_backend_def)
  moreover have "streams s4 = streams s" using prepare_frame(2)[OF command(1)] .
  ultimately have "fst (login env req preq s4) = Some MalformedPayload"
    using assms by (intro login_malformed) simp_all
  with command(2) show ?thesis by simp
next
  case (relay preq s4 s5)
  have "Path (urls s4 (URL req)) = Path (urls s (URL req))"
    using prepare_frame(1)[OF relay(1)] by (simp add: to_backend_def)
  moreover have "streams s4 = streams s" using prepare_frame(2)[OF relay(1)] .
  ultimately have "fst (login env req preq s4) = Some MalformedPayload"
    using assms by (intro login_malformed) simp_all
  with relay(2) show ?thesis by simp
qed

text \<open>The body \<open>{oops\<close>, posted to \<open>/admin/api/login\<close>.\<close>

theorem login_malformed_fails_unforwarded_witness:
  "Method (request_of ''POST'') = ''POST'' \<and>
   Contains (Path (urls (state_of ''/admin/api/login'' [] Map.empty ''{oops'') (URL (request_of ''POST'')))) ''/login'' \<and>
   snd (Decode (world_of ok_response []) (streams (state_of ''/admin/api/login'' [] Map.empty ''{oops'') (Body (request_of ''POST'')))) = None \<and>
   fst (fileBrowser (world_of ok_response []) (request_of ''POST'')
          (state_of ''/admin/api/login'' [] Map.empty ''{oops'')) = Panicked MalformedPayload \<and>
   forwarded (snd (fileBrowser (world_of ok_response []) (request_of ''POST'')
          (state_of ''/admin/api/login'' [] Map.empty ''{oops''))) = []"
proof -
  have a: "Method (request_of ''POST'') = ''POST''" by (simp add: request_of_def)
  have b: "Contains (Path (urls (state_of ''/admin/api/login'' [] Map.empty ''{oops'') (URL (request_of ''POST'')))) ''/login''"
    by (simp add: state_of_def)
  have c: "snd (Decode (world_of ok_response []) (streams (state_of ''/admin/api/login'' [] Map.empty ''{oops'') (Body (request_of ''POST'')))) = None"
    by (simp add: world_of_def state_of_def Decode_object_def is_space_def)
  show ?thesis
    using a b c login_malformed_fails_unforwarded[OF a b c]
    by (simp add: world_of_def state_of_def)
qed

section \<open>What is relayed\<close>

text \<open>
  The URL string of the backend URL, and the response written to the caller when the
  handler has forwarded a request and returned: the header set is the writer's own with
  the backend's entries copied in, under the extension taken from that URL string; the
  body is the backend's; the status is 200. The media type table has been asked about
  that extension.
\<close>

lemma URL_String_to_backend:
  "URL_String env (to_backend u) =
     ''http://localhost:8080'' @
     (if EscapedPath env (Path u) \<noteq> [] \<and> hd (EscapedPath env (Path u)) \<noteq> CHR ''/'' then ''/'' else []) @
     EscapedPath env (Path u) @
     (if ForceQuery u \<or> RawQuery u \<noteq> [] then ''?'' @ RawQuery u else [])"
  by (simp add: URL_String_def to_backend_def Let_def)

lemma fileBrowser_relayed:
  assumes run: "fileBrowser env req s = (Returned, s')"
      and nocmd: "\<not> Contains (Path (urls s (URL req))) ''api/command''"
      and res: "client_Do env (last (forwarded s')) = Some res"
  shows "w_Header s' =
           copy_headers env
             (''.'' @ last (Split (URL_String env (to_backend (urls s (URL req)))) (CHR ''.'')))
             (RespHeader res) (w_Header s)"
    and "w_body s' = w_body s @ RespBody res"
    and "w_status s' = (if w_status s = None then Some 200 else w_status s)"
    and "w_sent_header s' = (if w_status s = None then w_Header s' else w_sent_header s)"
    and "mime_asked s' =
           mime_asked s @
           ask_headers env
             (''.'' @ last (Split (URL_String env (to_backend (urls s (URL req)))) (CHR ''.'')))
             (RespHeader res)"
proof -
  obtain preq s4 s5 where p: "prepare env req s = (Some preq, s4)"
      and l: "login env req preq s4 = (None, s5)"
      and r: "relay env req preq s5 = (Returned, s')"
  proof (cases rule: fileBrowser_cases[of env req s])
    case (new_request s1)
    with run show ?thesis by simp
  next
    case (malformed preq s4 f s5)
    with run show ?thesis by simp
  next
    case (command preq s4 s5)
    with nocmd show ?thesis by simp
  next
    case (relay preq s4 s5)
    with run that show ?thesis by simp
  qed
  have u5: "urls s5 (URL req) = to_backend (urls s (URL req))"
    using login_frame(1)[OF l] prepare_frame(1)[OF p] by simp
  have w5: "w_Header s5 = w_Header s" "w_body s5 = w_body s" "w_status s5 = w_status s"
      "w_sent_header s5 = w_sent_header s" "mime_asked s5 = mime_asked s"
    using login_frame[OF l] prepare_frame[OF p] by simp_all
  from relay_Returned[OF r] obtain res' where
      res': "client_Do env (last (forwarded s')) = Some res'"
      and rest: "w_Header s' =
             copy_headers env (''.'' @ last (Split (URL_String env (urls s5 (URL req))) (CHR ''.'')))
               (RespHeader res') (w_Header s5)"
        "w_body s' = w_body s5 @ RespBody res'"
        "w_status s' = (if w_status s5 = None then Some 200 else w_status s5)"
        "w_sent_header s' = (if w_status s5 = None then w_Header s' else w_sent_header s5)"
        "mime_asked s' =
           mime_asked s5 @
           ask_headers env (''.'' @ last (Split (URL_String env (urls s5 (URL req))) (CHR ''.'')))
             (RespHeader res')"
    by blast
  have "res' = res" using res res' by simp
  with rest u5 w5 show "w_Header s' =
           copy_headers env
             (''.'' @ last (Split (URL_String env (to_backend (urls s (URL req)))) (CHR ''.'')))
             (RespHeader res) (w_Header s)"
    and "w_body s' = w_body s @ RespBody res"
    and "w_status s' = (if w_status s = None then Some 200 else w_status s)"
    and "w_sent_header s' = (if w_status s = None then w_Header s' else w_sent_header s)"
    and "mime_asked s' =
           mime_asked s @
           ask_headers env
             (''.'' @ last (Split (URL_String env (to_backend (urls s (URL req)))) (CHR ''.'')))
             (RespHeader res)"
    by simp_all
qed

section \<open>What is forwarded\<close>

text \<open>
  The request handed to the backend, for a login request whose body decodes and for a
  request that is no login request (neither on a command path): the method, the URL
  string, the cloned header set with \<open>Host\<close> and \<open>X-Forwarded-For\<close>, and what is
  left of the body stream. After a login the decoder has taken \<open>n\<close> bytes off the
  stream, and the identity header is set to the decoded user name.
\<close>

lemma fileBrowser_login_forwarded:
  assumes post: "Method req = ''POST''"
      and path: "Contains (Path (urls s (URL req))) ''/login''"
      and nocmd: "\<not> Contains (Path (urls s (URL req))) ''api/command''"
      and newreq: "\<not> NewRequest_fails env (Method req) (URL_String env (to_backend (urls s (URL req))))"
      and dec: "Decode env (streams s (Body req)) = (n, Some us)"
  shows "forwarded (snd (fileBrowser env req s)) =
           forwarded s @
           [\<lparr>fMethod = ''POST'', fURL = URL_String env (to_backend (urls s (URL req))),
             fHeader = Header_Set
                         (Header_Set (Header_Set (Header_Clone (headers s (Header req)))
                            ''Host'' (ReqHost req)) ''X-Forwarded-For'' (RemoteAddr req))
                         fbAuthHeader (Username us),
             fBody = drop n (streams s (Body req))\<rparr>]"
proof (cases rule: fileBrowser_cases[of env req s])
  case (new_request s1)
  with newreq show ?thesis by (simp add: prepare_None)
next
  case (malformed preq s4 f s5)
  have "snd (Decode env (streams s4 (Body req))) = None"
    using login_Some[OF malformed(2)] by simp
  with dec prepare_frame(2)[OF malformed(1)] show ?thesis by simp
next
  case (command preq s4 s5)
  with nocmd show ?thesis by simp
next
  case (relay preq s4 s5)
  have p4: "Path (urls s4 (URL req)) = Path (urls s (URL req))"
    using prepare_frame(1)[OF relay(1)] by (simp add: to_backend_def)
  have st4: "streams s4 = streams s" using prepare_frame(2)[OF relay(1)] .
  have s5: "s5 = set_header (pHeader preq) fbAuthHeader (Username us)
                   (s4\<lparr>streams := (streams s4)(Body req := drop n (streams s4 (Body req)))\<rparr>)"
    using login_decoded[of req s4 env n us preq] post path dec p4 st4 relay(2) by simp
  obtain oc s' where r: "relay env req preq s5 = (oc, s')" by (cases "relay env req preq s5")
  have "forwarded s' = forwarded s5 @ [\<lparr>fMethod = pMethod preq, fURL = pURL preq,
                  fHeader = headers s5 (pHeader preq), fBody = streams s5 (pBody preq)\<rparr>]"
    using relay_frame(5)[OF r] .
  moreover have "forwarded s5 = forwarded s"
    using login_frame(2)[OF relay(2)] prepare_frame(3)[OF relay(1)] by simp
  moreover have "headers s5 (pHeader preq) =
      Header_Set (Header_Set (Header_Set (Header_Clone (headers s (Header req)))
                            ''Host'' (ReqHost req)) ''X-Forwarded-For'' (RemoteAddr req))
                         fbAuthHeader (Username us)"
    using s5 prepare_Some[OF relay(1)] by (simp add: set_header_def)
  moreover have "streams s5 (pBody preq) = drop n (streams s (Body req))"
    using s5 prepare_Some[OF relay(1)] st4 by (simp add: set_header_def)
  ultimately show ?thesis
    using relay(4) r prepare_Some[OF relay(1)] post by simp
qed

lemma fileBrowser_plain_forwarded:
  assumes nologin: "\<not> (Method req = ''POST'' \<and> Contains (Path (urls s (URL req))) ''/login'')"
      and nocmd: "\<not> Contains (Path (urls s (URL req))) ''api/command''"
      and newreq: "\<not> NewRequest_fails env (Method req) (URL_String env (to_backend (urls s (URL req))))"
  shows "forwarded (snd (fileBrowser env req s)) =
           forwarded s @
           [\<lparr>fMethod = Method req, fURL = URL_String env (to_backend (urls s (URL req))),
             fHeader = Header_Set (Header_Set (Header_Clone (headers s (Header req)))
                            ''Host'' (ReqHost req)) ''X-Forwarded-For'' (RemoteAddr req),
             fBody = streams s (Body req)\<rparr>]"
proof (cases rule: fileBrowser_cases[of env req s])
  case (new_request s1)
  with newreq show ?thesis by (simp add: prepare_None)
next
  case (malformed preq s4 f s5)
  have "Path (urls s4 (URL req)) = Path (urls s (URL req))"
    using prepare_frame(1)[OF malformed(1)] by (simp add: to_backend_def)
  with login_Some[OF malformed(2)] nologin show ?thesis by simp
next
  case (command preq s4 s5)
  with nocmd show ?thesis by simp
next
  case (relay preq s4 s5)
  have p4: "Path (urls s4 (URL req)) = Path (urls s (URL req))"
    using prepare_frame(1)[OF relay(1)] by (simp add: to_backend_def)
  have s5: "s5 = s4" using login_skip[of req s4 env preq] nologin p4 relay(2) by simp
  obtain oc s' where r: "relay env req preq s5 = (oc, s')" by (cases "relay env req preq s5")
  show ?thesis
    using relay_frame(5)[OF r] relay(4) r s5 prepare_Some[OF relay(1)]
      prepare_frame(2,3)[OF relay(1)] by simp
qed

text \<open>
  The caller's header map is not written, since every \<open>Set\<close> goes to the clone; the
  caller's URL object is.
\<close>

lemma fileBrowser_headers_frame:
  assumes "Header req < next_addr s"
  shows "headers (snd (fileBrowser env req s)) (Header req) = headers s (Header req)"
proof (cases rule: fileBrowser_cases[of env req s])
  case (new_request s1)
  then show ?thesis using prepare_frame(10)[OF new_request(1)] assms by simp
next
  case (malformed preq s4 f s5)
  have "pHeader preq = next_addr s" using prepare_Some(3)[OF malformed(1)] .
  then have "headers s5 (Header req) = headers s4 (Header req)"
    using login_frame(10)[OF malformed(2), of "Header req"] assms by simp
  then show ?thesis using malformed(3) prepare_frame(10)[OF malformed(1)] assms by simp
next
  case (command preq s4 s5)
  have "pHeader preq = next_addr s" using prepare_Some(3)[OF command(1)] .
  then have a: "headers s5 (Header req) = headers s4 (Header req)"
    using login_frame(10)[OF command(2), of "Header req"] assms by simp
  obtain oc s' where r: "command env req s5 = (oc, s')" by (cases "command env req s5")
  show ?thesis using command(4) r command_frame(1)[OF r] a prepare_frame(10)[OF command(1)] assms
    by simp
next
  case (relay preq s4 s5)
  have "pHeader preq = next_addr s" using prepare_Some(3)[OF relay(1)] .
  then have a: "headers s5 (Header req) = headers s4 (Header req)"
    using login_frame(10)[OF relay(2), of "Header req"] assms by simp
  obtain oc s' where r: "relay env req preq s5 = (oc, s')" by (cases "relay env req preq s5")
  show ?thesis using relay(4) r relay_frame(2)[OF r] a prepare_frame(10)[OF relay(1)] assms
    by simp
qed

lemma fileBrowser_url_rewritten:
  assumes "\<not> Contains (Path (urls s (URL req))) ''api/command''"
  shows "urls (snd (fileBrowser env req s)) (URL req) = to_backend (urls s (URL req))"
proof (cases rule: fileBrowser_cases[of env req s])
  case (new_request s1)
  then show ?thesis using prepare_frame(1)[OF new_request(1)] by simp
next
  case (malformed preq s4 f s5)
  then show ?thesis using prepare_frame(1)[OF malformed(1)] login_frame(1)[OF malformed(2)] by simp
next
  case (command preq s4 s5)
  with assms show ?thesis by simp
next
  case (relay preq s4 s5)
  obtain oc s' where r: "relay env req preq s5 = (oc, s')" by (cases "relay env req preq s5")
  show ?thesis using relay(4) r relay_frame(1)[OF r] prepare_frame(1)[OF relay(1)]
      login_frame(1)[OF relay(2)] by simp
qed

section \<open>The body of a login request\<close>

text \<open>
  Claim C1, at the login request \<open>POST /admin/api/login\<close> with the 40-byte body
  \<open>{"username":"alice","password":"secret"}\<close>. The body decodes and the request is
  forwarded, but the body it is forwarded with is empty: the decoder has read the
  stream that the outbound request shares, and nothing puts the bytes back.
\<close>

theorem login_body_consumed_before_forward:
  "fst (fileBrowser (world_of ok_response []) (request_of ''POST'')
          (state_of ''/admin/api/login'' [] Map.empty (login_json ''alice'' ''secret''))) = Returned \<and>
   map fBody (forwarded (snd (fileBrowser (world_of ok_response []) (request_of ''POST'')
          (state_of ''/admin/api/login'' [] Map.empty (login_json ''alice'' ''secret''))))) = [[]] \<and>
   length (login_json ''alice'' ''secret'') = 40"
  by (simp add: eval_defs)

section \<open>The identity header\<close>

text \<open>
  Claim C2, at the login request \<open>POST /admin/api/login\<close> with the body
  \<open>{"username":"mallory","password":"guess"}\<close>. No lookup is made (\<open>foundIndDB\<close> is
  the constant \<open>true\<close>), so whoever the credentials belong to, the request is forwarded
  with the identity header \<open>X-Generic-AppName\<close> (stored under its canonical key) set to
  the user name of the body.
\<close>

theorem identity_header_set_without_lookup:
  "fst (fileBrowser (world_of ok_response []) (request_of ''POST'')
          (state_of ''/admin/api/login'' [] Map.empty (login_json ''mallory'' ''guess''))) = Returned \<and>
   map (\<lambda>f. fHeader f ''X-Generic-Appname'')
     (forwarded (snd (fileBrowser (world_of ok_response []) (request_of ''POST'')
          (state_of ''/admin/api/login'' [] Map.empty (login_json ''mallory'' ''guess''))))) =
     [Some [''mallory'']]"
  by (simp add: eval_defs)

section \<open>Failures and the process\<close>

text \<open>
  Claim C3, at a request on the command path whose WebSocket dial to the backend fails,
  followed by an ordinary request, and at a raw connection whose dial fails, followed by
  another one. The failed dial ends the process (\<open>log.Fatal\<close> in the handler, an
  unrecovered \<open>panic\<close> in the goroutine of \<open>handleRequest\<close>): the request and the
  connection that follow are never served.
\<close>

theorem dial_failure_ends_process:
  "map fst (fst (ListenAndServe
      [((world_of ok_response [])\<lparr>Dial := (\<lambda>u. None)\<rparr>, request_of ''GET'',
        state_of ''/admin/api/command/'' [] Map.empty []),
       (world_of ok_response [], request_of ''GET'', state_of ''/admin/files'' [] Map.empty [])])) =
     [Exited DialFailure] \<and>
   snd (ListenAndServe
      [((world_of ok_response [])\<lparr>Dial := (\<lambda>u. None)\<rparr>, request_of ''GET'',
        state_of ''/admin/api/command/'' [] Map.empty []),
       (world_of ok_response [], request_of ''GET'', state_of ''/admin/files'' [] Map.empty [])]) = False \<and>
   Forwarding [Conn True, Conn False] = (0, False)"
  by (simp add: eval_defs)

text \<open>
  The other failures end the one request only: a failed upgrade handshake, a failed
  forward and a login body that does not decode leave the process alive, and the request
  after them is served.
\<close>

lemma other_failures_are_isolated:
  "snd (ListenAndServe
      [((world_of ok_response [])\<lparr>Upgrade := None\<rparr>, request_of ''GET'',
        state_of ''/admin/api/command/'' [] Map.empty []),
       ((world_of ok_response [])\<lparr>client_Do := (\<lambda>r. None)\<rparr>, request_of ''GET'',
        state_of ''/admin/files'' [] Map.empty []),
       (world_of ok_response [], request_of ''POST'', state_of ''/admin/api/login'' [] Map.empty ''{oops''),
       (world_of ok_response [], request_of ''GET'', state_of ''/admin/files'' [] Map.empty [])]) = True \<and>
   map fst (fst (ListenAndServe
      [((world_of ok_response [])\<lparr>Upgrade := None\<rparr>, request_of ''GET'',
        state_of ''/admin/api/command/'' [] Map.empty []),
       ((world_of ok_response [])\<lparr>client_Do := (\<lambda>r. None)\<rparr>, request_of ''GET'',
        state_of ''/admin/files'' [] Map.empty []),
       (world_of ok_response [], request_of ''POST'', state_of ''/admin/api/login'' [] Map.empty ''{oops''),
       (world_of ok_response [], request_of ''GET'', state_of ''/admin/files'' [] Map.empty [])])) =
     [Returned, Panicked ClientDoError, Panicked MalformedPayload, Returned]"
  by (simp add: eval_defs)

section \<open>The command branch\<close>

text \<open>
  Claim C4, at a request on the command path whose handshake and dial succeed and whose
  caller sends the message \<open>ls\<close>. The handler writes the one text message \<open>message\<close>
  to the caller and returns: the caller's message is never read, nothing is written to
  the backend's connection, and neither connection is closed.
\<close>

theorem command_sends_one_message_only:
  "fst (fileBrowser (world_of ok_response [(TextMessage, ''ls'')]) (request_of ''GET'')
          (state_of ''/admin/api/command/'' [] Map.empty [])) = Returned \<and>
   clientC (snd (fileBrowser (world_of ok_response [(TextMessage, ''ls'')]) (request_of ''GET'')
          (state_of ''/admin/api/command/'' [] Map.empty []))) =
     Some \<lparr>inbox = [(TextMessage, ''ls'')], outbox = [(TextMessage, ''message'')], closed = False\<rparr> \<and>
   fbC (snd (fileBrowser (world_of ok_response [(TextMessage, ''ls'')]) (request_of ''GET'')
          (state_of ''/admin/api/command/'' [] Map.empty []))) =
     Some \<lparr>inbox = [], outbox = [], closed = False\<rparr>"
  by (simp add: eval_defs)

section \<open>The status of the response\<close>

text \<open>
  Claim C5, at the request \<open>GET /admin/missing\<close> that the backend answers with status
  404 and the body \<open>not found\<close>. The caller gets the body, under status 200: the
  handler never writes the backend's status code.
\<close>

theorem backend_status_not_passed_through:
  "fst (fileBrowser (world_of \<lparr>StatusCode = 404, RespHeader = [], RespBody = ''not found''\<rparr> [])
          (request_of ''GET'') (state_of ''/admin/missing'' [] Map.empty [])) = Returned \<and>
   w_status (snd (fileBrowser (world_of \<lparr>StatusCode = 404, RespHeader = [], RespBody = ''not found''\<rparr> [])
          (request_of ''GET'') (state_of ''/admin/missing'' [] Map.empty []))) = Some 200 \<and>
   w_body (snd (fileBrowser (world_of \<lparr>StatusCode = 404, RespHeader = [], RespBody = ''not found''\<rparr> [])
          (request_of ''GET'') (state_of ''/admin/missing'' [] Map.empty []))) = ''not found''"
  by (simp add: eval_defs)

section \<open>The caller's request object\<close>

text \<open>
  Claim C7, at the request \<open>GET /admin/files\<close>. Before the call the caller's URL object
  has no scheme and no host; after it, the scheme is \<open>http\<close> and the host
  \<open>localhost:8080\<close>: the handler has written through the pointer it shares with the
  caller.
\<close>

theorem caller_url_overwritten:
  "urls (state_of ''/admin/files'' [] Map.empty []) (URL (request_of ''GET'')) =
     \<lparr>Scheme = [], Host = [], Path = ''/admin/files'', ForceQuery = False, RawQuery = []\<rparr> \<and>
   urls (snd (fileBrowser (world_of ok_response []) (request_of ''GET'')
          (state_of ''/admin/files'' [] Map.empty []))) (URL (request_of ''GET'')) =
     \<lparr>Scheme = ''http'', Host = ''localhost:8080'', Path = ''/admin/files'', ForceQuery = False,
      RawQuery = []\<rparr>"
  by (simp add: eval_defs)

section \<open>The header copy\<close>

text \<open>
  The rule of the header copy, for every table of media types. Let the handler forward
  a request that is not on a command path and relay the response, a header map with
  distinct canonical names, and let \<open>ext\<close> be \<open>.\<close> followed by the last piece of the
  backend URL string split on \<open>.\<close>. For a name the backend sent values for: when the
  name is \<open>Content-Type\<close> and the table's answer for \<open>ext\<close> is exactly \<open>text/css\<close>,
  the caller's header set has one value under it, the first one the backend sent;
  otherwise it has the values the writer held before followed by every value the
  backend sent, in order.
\<close>

lemma relay_header_copy:
  assumes run: "fileBrowser env req s = (Returned, s')"
      and nocmd: "\<not> Contains (Path (urls s (URL req))) ''api/command''"
      and res: "client_Do env (last (forwarded s')) = Some res"
      and keys: "distinct (map fst (RespHeader res))"
      and canon: "list_all (\<lambda>e. CanonicalMIMEHeaderKey (fst e) = fst e) (RespHeader res)"
      and ext: "ext = ''.'' @ last (Split (URL_String env (to_backend (urls s (URL req)))) (CHR ''.''))"
  shows "w_Header s' k =
           (case map_of (RespHeader res) k of
              None \<Rightarrow> w_Header s k
            | Some vs \<Rightarrow>
                if vs = [] then w_Header s k
                else if k = ''Content-Type'' \<and> TypeByExtension env ext = ''text/css''
                     then Some [hd vs]
                     else Some ((case w_Header s k of None \<Rightarrow> [] | Some ws \<Rightarrow> ws) @ vs)) \<and>
         (if w_status s = None then w_sent_header s' = w_Header s' else w_sent_header s' = w_sent_header s)"
proof (rule conjI)
  have "w_Header s' = copy_headers env ext (RespHeader res) (w_Header s)"
    using fileBrowser_relayed(1)[OF run nocmd res] ext by simp
  then show "w_Header s' k =
           (case map_of (RespHeader res) k of
              None \<Rightarrow> w_Header s k
            | Some vs \<Rightarrow>
                if vs = [] then w_Header s k
                else if k = ''Content-Type'' \<and> TypeByExtension env ext = ''text/css''
                     then Some [hd vs]
                     else Some ((case w_Header s k of None \<Rightarrow> [] | Some ws \<Rightarrow> ws) @ vs))"
    by (simp only: copy_headers_at[OF keys canon])
  show "if w_status s = None then w_sent_header s' = w_Header s' else w_sent_header s' = w_sent_header s"
    using fileBrowser_relayed(4)[OF run nocmd res] by simp
qed

text \<open>
  Under a table that never answers exactly \<open>text/css\<close> the extension makes no
  difference to the copy; the library's table is one.
\<close>

lemma copy_values_ext_irrelevant:
  assumes "TypeByExtension env ext \<noteq> ''text/css''" "TypeByExtension env ext' \<noteq> ''text/css''"
  shows "copy_values env ext hname vs h = copy_values env ext' hname vs h"
  using assms by (induction vs arbitrary: h) auto

lemma copy_headers_ext_irrelevant:
  assumes "TypeByExtension env ext \<noteq> ''text/css''" "TypeByExtension env ext' \<noteq> ''text/css''"
  shows "copy_headers env ext hs h = copy_headers env ext' hs h"
  using assms
proof (induction hs arbitrary: h)
  case Nil
  show ?case by simp
next
  case (Cons e hs)
  obtain hname vs where e: "e = (hname, vs)" by (cases e)
  show ?case using Cons copy_values_ext_irrelevant[OF Cons.prems] e by simp
qed

lemma builtin_override_dead:
  "copy_headers (world_of res from_caller) ext hs h = copy_headers (world_of res from_caller) ext' hs h"
  by (rule copy_headers_ext_irrelevant) (simp_all add: world_of_def mime_builtin_never_css)

text \<open>
  Claim C6, at the request \<open>GET /admin/static/style.css\<close> that the backend answers
  with the \<open>Content-Type\<close> values \<open>text/plain\<close> and \<open>text/css\<close>. The path ends in
  \<open>.css\<close>, and for \<open>.css\<close> the library answers \<open>text/css; charset=utf-8\<close>, which
  the comparison of line 193 with \<open>text/css\<close> does not meet: the override is not
  applied, and the caller gets both values.
\<close>

theorem css_override_never_applied:
  "fst (fileBrowser (world_of css_response []) (request_of ''GET'')
      (state_of ''/admin/static/style.css'' [] Map.empty [])) = Returned \<and>
   mime_asked (snd (fileBrowser (world_of css_response []) (request_of ''GET'')
      (state_of ''/admin/static/style.css'' [] Map.empty []))) = [''.css'', ''.css''] \<and>
   mime_builtin ''.css'' = ''text/css; charset=utf-8'' \<and>
   w_sent_header (snd (fileBrowser (world_of css_response []) (request_of ''GET'')
      (state_of ''/admin/static/style.css'' [] Map.empty []))) ''Content-Type'' =
     Some [''text/plain'', ''text/css'']"
  by (simp add: eval_defs mime_builtin_css)

section \<open>Where the extension comes from\<close>

text \<open>
  The calls of the media type table all have the one argument, and there is a call
  exactly when the backend sent a value of \<open>Content-Type\<close>.
\<close>

lemma ask_values_replicate:
  "ask_values env ext hname vs =
     replicate (if hname = ''Content-Type''
                then (if TypeByExtension env ext = ''text/css'' then min 1 (length vs) else length vs)
                else 0) ext"
  by (induction vs) auto

lemma ask_headers_replicate:
  "\<exists>n. ask_headers env ext hs = replicate n ext \<and>
       (0 < n) = (\<exists>vs. (''Content-Type'', vs) \<in> set hs \<and> vs \<noteq> [])"
proof (induction hs)
  case Nil
  show ?case by simp
next
  case (Cons e hs)
  obtain hname vs where e: "e = (hname, vs)" by (cases e)
  from Cons obtain n where n: "ask_headers env ext hs = replicate n ext"
      "(0 < n) = (\<exists>vs. (''Content-Type'', vs) \<in> set hs \<and> vs \<noteq> [])" by blast
  define k where "k = (if hname = ''Content-Type''
                then (if TypeByExtension env ext = ''text/css'' then min 1 (length vs) else length vs)
                else 0)"
  have k: "(0 < k) = (hname = ''Content-Type'' \<and> vs \<noteq> [])"
    by (auto simp: k_def)
  have "ask_headers env ext (e # hs) = replicate (k + n) ext"
    using n(1) e by (simp add: ask_values_replicate k_def replicate_add)
  moreover have "(0 < k + n) = (\<exists>vs'. (''Content-Type'', vs') \<in> set (e # hs) \<and> vs' \<noteq> [])"
    using k n(2) e by auto
  ultimately show ?case by blast
qed

text \<open>
  Claim C10, as stated, fails in its last part: the dots of the URL neither enable nor
  disable the override. The backend answers with the \<open>Content-Type\<close> values
  \<open>text/plain\<close> and \<open>text/css\<close>; for \<open>/admin/static/style.css\<close>, for
  \<open>/admin/static/style.css?v=2\<close>, for \<open>/admin/api/raw?file=a.css\<close> and for
  \<open>/admin/files\<close> alike the caller gets both values.
\<close>

theorem url_dots_do_not_switch_override_counterexample:
  "map_of (RespHeader css_response) ''Content-Type'' = Some [''text/plain'', ''text/css''] \<and>
   w_sent_header (snd (fileBrowser (world_of css_response []) (request_of ''GET'')
      (state_of ''/admin/static/style.css'' [] Map.empty []))) ''Content-Type'' =
     Some [''text/plain'', ''text/css''] \<and>
   w_sent_header (snd (fileBrowser (world_of css_response []) (request_of ''GET'')
      (state_of ''/admin/static/style.css'' ''v=2'' Map.empty []))) ''Content-Type'' =
     Some [''text/plain'', ''text/css''] \<and>
   w_sent_header (snd (fileBrowser (world_of css_response []) (request_of ''GET'')
      (state_of ''/admin/api/raw'' ''file=a.css'' Map.empty []))) ''Content-Type'' =
     Some [''text/plain'', ''text/css''] \<and>
   w_sent_header (snd (fileBrowser (world_of css_response []) (request_of ''GET'')
      (state_of ''/admin/files'' [] Map.empty []))) ''Content-Type'' =
     Some [''text/plain'', ''text/css'']"
  by (simp add: eval_defs)

text \<open>
  Claim C10, amended. Let the handler forward a request that is not on a command path
  and relay the response, and let \<open>target\<close> be the whole backend URL string: the
  scheme and host \<open>http://localhost:8080\<close>, the escaped path (after a \<open>/\<close> when it
  does not start with one) and, when there is a query or the request target ends in a
  bare \<open>?\<close>, \<open>?\<close> and the raw query. The handler asks the table of media types
  once for each \<open>Content-Type\<close> value it goes through (at least once when the backend
  sent one, never when it sent none), and every time about the same extension: when
  \<open>target\<close> is \<open>pre.seg\<close> with no \<open>.\<close> in \<open>seg\<close>, about \<open>.seg\<close>, whatever the
  extension of the path is; when \<open>target\<close> has no \<open>.\<close>, about \<open>.\<close> followed by the
  whole of \<open>target\<close>. The header copy runs under that extension.
\<close>

theorem extension_asked_is_tail_of_url_string:
  assumes run: "fileBrowser env req s = (Returned, s')"
      and nocmd: "\<not> Contains (Path (urls s (URL req))) ''api/command''"
      and res: "client_Do env (last (forwarded s')) = Some res"
      and target: "target =
             ''http://localhost:8080'' @
             (if EscapedPath env (Path (urls s (URL req))) \<noteq> [] \<and>
                 hd (EscapedPath env (Path (urls s (URL req)))) \<noteq> CHR ''/'' then ''/'' else []) @
             EscapedPath env (Path (urls s (URL req))) @
             (if ForceQuery (urls s (URL req)) \<or> RawQuery (urls s (URL req)) \<noteq> []
              then ''?'' @ RawQuery (urls s (URL req)) else [])"
  shows "\<exists>n. (0 < n) = (\<exists>vs. (''Content-Type'', vs) \<in> set (RespHeader res) \<and> vs \<noteq> []) \<and>
             (\<forall>pre seg. target = pre @ ''.'' @ seg \<and> CHR ''.'' \<notin> set seg \<longrightarrow>
                mime_asked s' = mime_asked s @ replicate n (''.'' @ seg) \<and>
                w_Header s' = copy_headers env (''.'' @ seg) (RespHeader res) (w_Header s)) \<and>
             (CHR ''.'' \<notin> set target \<longrightarrow>
                mime_asked s' = mime_asked s @ replicate n (''.'' @ target) \<and>
                w_Header s' = copy_headers env (''.'' @ target) (RespHeader res) (w_Header s))"
proof -
  have t: "URL_String env (to_backend (urls s (URL req))) = target"
    unfolding target by (rule URL_String_to_backend)
  let ?ext = "''.'' @ last (Split target (CHR ''.''))"
  have h: "w_Header s' = copy_headers env ?ext (RespHeader res) (w_Header s)"
    using fileBrowser_relayed(1)[OF run nocmd res] t by simp
  have a: "mime_asked s' = mime_asked s @ ask_headers env ?ext (RespHeader res)"
    using fileBrowser_relayed(5)[OF run nocmd res] t by simp
  obtain n where n: "ask_headers env ?ext (RespHeader res) = replicate n ?ext"
      "(0 < n) = (\<exists>vs. (''Content-Type'', vs) \<in> set (RespHeader res) \<and> vs \<noteq> [])"
    using ask_headers_replicate[of env ?ext "RespHeader res"] by blast
  have seg: "mime_asked s' = mime_asked s @ replicate n (''.'' @ seg) \<and>
             w_Header s' = copy_headers env (''.'' @ seg) (RespHeader res) (w_Header s)"
    if "target = pre @ ''.'' @ seg \<and> CHR ''.'' \<notin> set seg" for pre seg
  proof -
    have "last (Split target (CHR ''.'')) = seg"
      using that last_Split_append[of "CHR ''.''" seg pre] by simp
    then show ?thesis using h a n(1) by simp
  qed
  have whole: "mime_asked s' = mime_asked s @ replicate n (''.'' @ target) \<and>
             w_Header s' = copy_headers env (''.'' @ target) (RespHeader res) (w_Header s)"
    if "CHR ''.'' \<notin> set target"
  proof -
    have "last (Split target (CHR ''.'')) = target"
      using that by (simp add: Split_no_sep)
    then show ?thesis using h a n(1) by simp
  qed
  show ?thesis
  proof (intro exI[of _ n] conjI allI impI)
    show "(0 < n) = (\<exists>vs. (''Content-Type'', vs) \<in> set (RespHeader res) \<and> vs \<noteq> [])"
      by (rule n(2))
  next
    fix pre seg
    assume "target = pre @ ''.'' @ seg \<and> CHR ''.'' \<notin> set seg"
    then show "mime_asked s' = mime_asked s @ replicate n (''.'' @ seg)"
      using seg[of pre seg] by simp
  next
    fix pre seg
    assume "target = pre @ ''.'' @ seg \<and> CHR ''.'' \<notin> set seg"
    then show "w_Header s' = copy_headers env (''.'' @ seg) (RespHeader res) (w_Header s)"
      using seg[of pre seg] by simp
  next
    assume "CHR ''.'' \<notin> set target"
    then show "mime_asked s' = mime_asked s @ replicate n (''.'' @ target)"
      using whole by simp
  next
    assume "CHR ''.'' \<notin> set target"
    then show "w_Header s' = copy_headers env (''.'' @ target) (RespHeader res) (w_Header s)"
      using whole by simp
  qed
qed

text \<open>
  Three requests, each answered with two values of \<open>Content-Type\<close>:
  \<open>/admin/static/style.css?v=2\<close> asks about \<open>.css?v=2\<close>, \<open>/admin/files\<close> about
  \<open>.http://localhost:8080/admin/files\<close>, and \<open>/admin/static/style.css?\<close> about
  \<open>.css?\<close>.
\<close>

theorem extension_asked_is_tail_of_url_string_witness:
  "mime_asked (snd (fileBrowser (world_of css_response []) (request_of ''GET'')
      (state_of ''/admin/static/style.css'' ''v=2'' Map.empty []))) =
     [''.css?v=2'', ''.css?v=2''] \<and>
   mime_asked (snd (fileBrowser (world_of css_response []) (request_of ''GET'')
      (state_of ''/admin/files'' [] Map.empty []))) =
     [''.http://localhost:8080/admin/files'', ''.http://localhost:8080/admin/files''] \<and>
   mime_asked (snd (fileBrowser (world_of css_response []) (request_of ''GET'')
      forced_query_state)) =
     [''.css?'', ''.css?'']"
proof -
  let ?env = "world_of css_response []"
  let ?req = "request_of ''GET''"
  let ?s1 = "state_of ''/admin/static/style.css'' ''v=2'' Map.empty []"
  let ?s2 = "state_of ''/admin/files'' [] Map.empty []"
  let ?s3 = "forced_query_state"
  have res: "client_Do ?env f = Some css_response" for f by (simp add: world_of_def)
  have run1: "fileBrowser ?env ?req ?s1 = (Returned, snd (fileBrowser ?env ?req ?s1))"
    by (simp add: prod_eq_iff) (simp add: eval_defs)
  have run2: "fileBrowser ?env ?req ?s2 = (Returned, snd (fileBrowser ?env ?req ?s2))"
    by (simp add: prod_eq_iff) (simp add: eval_defs)
  have run3: "fileBrowser ?env ?req ?s3 = (Returned, snd (fileBrowser ?env ?req ?s3))"
    by (simp add: prod_eq_iff) (simp add: eval_defs forced_query_state_def)
  have nocmd1: "\<not> Contains (Path (urls ?s1 (URL ?req))) ''api/command''"
    by (simp add: state_of_def)
  have nocmd2: "\<not> Contains (Path (urls ?s2 (URL ?req))) ''api/command''"
    by (simp add: state_of_def)
  have nocmd3: "\<not> Contains (Path (urls ?s3 (URL ?req))) ''api/command''"
    by (simp add: state_of_def forced_query_state_def)
  have t1: "''http://localhost:8080/admin/static/style.css?v=2'' =
             ''http://localhost:8080'' @
             (if EscapedPath ?env (Path (urls ?s1 (URL ?req))) \<noteq> [] \<and>
                 hd (EscapedPath ?env (Path (urls ?s1 (URL ?req)))) \<noteq> CHR ''/'' then ''/'' else []) @
             EscapedPath ?env (Path (urls ?s1 (URL ?req))) @
             (if ForceQuery (urls ?s1 (URL ?req)) \<or> RawQuery (urls ?s1 (URL ?req)) \<noteq> []
              then ''?'' @ RawQuery (urls ?s1 (URL ?req)) else [])"
    by (simp add: state_of_def world_of_def)
  have t2: "''http://localhost:8080/admin/files'' =
             ''http://localhost:8080'' @
             (if EscapedPath ?env (Path (urls ?s2 (URL ?req))) \<noteq> [] \<and>
                 hd (EscapedPath ?env (Path (urls ?s2 (URL ?req)))) \<noteq> CHR ''/'' then ''/'' else []) @
             EscapedPath ?env (Path (urls ?s2 (URL ?req))) @
             (if ForceQuery (urls ?s2 (URL ?req)) \<or> RawQuery (urls ?s2 (URL ?req)) \<noteq> []
              then ''?'' @ RawQuery (urls ?s2 (URL ?req)) else [])"
    by (simp add: state_of_def world_of_def)
  have t3: "''http://localhost:8080/admin/static/style.css?'' =
             ''http://localhost:8080'' @
             (if EscapedPath ?env (Path (urls ?s3 (URL ?req))) \<noteq> [] \<and>
                 hd (EscapedPath ?env (Path (urls ?s3 (URL ?req)))) \<noteq> CHR ''/'' then ''/'' else []) @
             EscapedPath ?env (Path (urls ?s3 (URL ?req))) @
             (if ForceQuery (urls ?s3 (URL ?req)) \<or> RawQuery (urls ?s3 (URL ?req)) \<noteq> []
              then ''?'' @ RawQuery (urls ?s3 (URL ?req)) else [])"
    by (simp add: state_of_def world_of_def forced_query_state_def)
  have cut1: "''http://localhost:8080/admin/static/style.css?v=2'' =
                ''http://localhost:8080/admin/static/style'' @ ''.'' @ ''css?v=2'' \<and>
              CHR ''.'' \<notin> set ''css?v=2''"
    by simp
  have nodot2: "CHR ''.'' \<notin> set ''http://localhost:8080/admin/files''" by simp
  have cut3: "''http://localhost:8080/admin/static/style.css?'' =
                ''http://localhost:8080/admin/static/style'' @ ''.'' @ ''css?'' \<and>
              CHR ''.'' \<notin> set ''css?''"
    by simp
  have before: "mime_asked ?s1 = []" "mime_asked ?s2 = []" "mime_asked ?s3 = []"
    by (simp_all add: state_of_def forced_query_state_def)
  have len1: "length (mime_asked (snd (fileBrowser ?env ?req ?s1))) = 2"
    by (simp add: eval_defs)
  have len2: "length (mime_asked (snd (fileBrowser ?env ?req ?s2))) = 2"
    by (simp add: eval_defs)
  have len3: "length (mime_asked (snd (fileBrowser ?env ?req ?s3))) = 2"
    by (simp add: eval_defs forced_query_state_def)
  from extension_asked_is_tail_of_url_string[OF run1 nocmd1 res t1]
  obtain n1 where n1: "(0 < n1) = (\<exists>vs. (''Content-Type'', vs) \<in> set (RespHeader css_response) \<and> vs \<noteq> []) \<and>
             (\<forall>pre seg. ''http://localhost:8080/admin/static/style.css?v=2'' = pre @ ''.'' @ seg \<and>
                 CHR ''.'' \<notin> set seg \<longrightarrow>
                mime_asked (snd (fileBrowser ?env ?req ?s1)) = mime_asked ?s1 @ replicate n1 (''.'' @ seg) \<and>
                w_Header (snd (fileBrowser ?env ?req ?s1)) =
                  copy_headers ?env (''.'' @ seg) (RespHeader css_response) (w_Header ?s1)) \<and>
             (CHR ''.'' \<notin> set ''http://localhost:8080/admin/static/style.css?v=2'' \<longrightarrow>
                mime_asked (snd (fileBrowser ?env ?req ?s1)) =
                  mime_asked ?s1 @ replicate n1 (''.'' @ ''http://localhost:8080/admin/static/style.css?v=2'') \<and>
                w_Header (snd (fileBrowser ?env ?req ?s1)) =
                  copy_headers ?env (''.'' @ ''http://localhost:8080/admin/static/style.css?v=2'')
                    (RespHeader css_response) (w_Header ?s1))" ..
  have a1: "mime_asked (snd (fileBrowser ?env ?req ?s1)) = replicate n1 ''.css?v=2''"
    using n1[THEN conjunct2, THEN conjunct1, rule_format, OF cut1, THEN conjunct1]
    by (simp add: before)
  then have "n1 = 2" using len1 by simp
  with a1 have r1: "mime_asked (snd (fileBrowser ?env ?req ?s1)) = [''.css?v=2'', ''.css?v=2'']"
    by (simp add: numeral_2_eq_2)
  from extension_asked_is_tail_of_url_string[OF run2 nocmd2 res t2]
  obtain n2 where n2: "(0 < n2) = (\<exists>vs. (''Content-Type'', vs) \<in> set (RespHeader css_response) \<and> vs \<noteq> []) \<and>
             (\<forall>pre seg. ''http://localhost:8080/admin/files'' = pre @ ''.'' @ seg \<and>
                 CHR ''.'' \<notin> set seg \<longrightarrow>
                mime_asked (snd (fileBrowser ?env ?req ?s2)) = mime_asked ?s2 @ replicate n2 (''.'' @ seg) \<and>
                w_Header (snd (fileBrowser ?env ?req ?s2)) =
                  copy_headers ?env (''.'' @ seg) (RespHeader css_response) (w_Header ?s2)) \<and>
             (CHR ''.'' \<notin> set ''http://localhost:8080/admin/files'' \<longrightarrow>
                mime_asked (snd (fileBrowser ?env ?req ?s2)) =
                  mime_asked ?s2 @ replicate n2 (''.'' @ ''http://localhost:8080/admin/files'') \<and>
                w_Header (snd (fileBrowser ?env ?req ?s2)) =
                  copy_headers ?env (''.'' @ ''http://localhost:8080/admin/files'')
                    (RespHeader css_response) (w_Header ?s2))" ..
  have a2: "mime_asked (snd (fileBrowser ?env ?req ?s2)) =
              replicate n2 ''.http://localhost:8080/admin/files''"
    using n2[THEN conjunct2, THEN conjunct2, rule_format, OF nodot2, THEN conjunct1]
    by (simp add: before)
  then have "n2 = 2" using len2 by simp
  with a2 have r2: "mime_asked (snd (fileBrowser ?env ?req ?s2)) =
      [''.http://localhost:8080/admin/files'', ''.http://localhost:8080/admin/files'']"
    by (simp add: numeral_2_eq_2)
  from extension_asked_is_tail_of_url_string[OF run3 nocmd3 res t3]
  obtain n3 where n3: "(0 < n3) = (\<exists>vs. (''Content-Type'', vs) \<in> set (RespHeader css_response) \<and> vs \<noteq> []) \<and>
             (\<forall>pre seg. ''http://localhost:8080/admin/static/style.css?'' = pre @ ''.'' @ seg \<and>
                 CHR ''.'' \<notin> set seg \<longrightarrow>
                mime_asked (snd (fileBrowser ?env ?req ?s3)) = mime_asked ?s3 @ replicate n3 (''.'' @ seg) \<and>
                w_Header (snd (fileBrowser ?env ?req ?s3)) =
                  copy_headers ?env (''.'' @ seg) (RespHeader css_response) (w_Header ?s3)) \<and>
             (CHR ''.'' \<notin> set ''http://localhost:8080/admin/static/style.css?'' \<longrightarrow>
                mime_asked (snd (fileBrowser ?env ?req ?s3)) =
                  mime_asked ?s3 @ replicate n3 (''.'' @ ''http://localhost:8080/admin/static/style.css?'') \<and>
                w_Header (snd (fileBrowser ?env ?req ?s3)) =
                  copy_headers ?env (''.'' @ ''http://localhost:8080/admin/static/style.css?'')
                    (RespHeader css_response) (w_Header ?s3))" ..
  have a3: "mime_asked (snd (fileBrowser ?env ?req ?s3)) = replicate n3 ''.css?''"
    using n3[THEN conjunct2, THEN conjunct1, rule_format, OF cut3, THEN conjunct1]
    by (simp add: before)
  then have "n3 = 2" using len3 by simp
  with a3 have r3: "mime_asked (snd (fileBrowser ?env ?req ?s3)) = [''.css?'', ''.css?'']"
    by (simp add: numeral_2_eq_2)
  show ?thesis using r1 r2 r3 by simp
qed

section \<open>The raw forwarder\<close>

text \<open>
  The invariant holds at the start and every step of either goroutine keeps it. And once
  \<open>conn\<close> is closed, no later step writes to side A.
\<close>

lemma relay_inv_start: "relay_inv from_a from_b (start_pair from_a fin_a from_b fin_b)"
  by (simp add: relay_inv_def start_pair_def)

lemma relay_inv_step:
  assumes "step p q" and "relay_inv from_a from_b p"
  shows "relay_inv from_a from_b q"
  using assms
proof (induction rule: step.induct)
  case (ab_read p chunk rest)
  then show ?case by (auto simp: relay_inv_def)
next
  case (ab_write p)
  then show ?case by (auto simp: relay_inv_def)
next
  case (ab_end_of_file p)
  then show ?case by (auto simp: relay_inv_def ab_return_def)
next
  case (ab_read_error p)
  then show ?case by (auto simp: relay_inv_def ab_return_def)
next
  case (ab_write_error p written lost)
  then show ?case by (auto simp: relay_inv_def ab_return_def)
next
  case (ba_read p chunk rest)
  then show ?case by (auto simp: relay_inv_def)
next
  case (ba_write p)
  then show ?case by (auto simp: relay_inv_def)
next
  case (ba_end_of_file p)
  then show ?case by (auto simp: relay_inv_def ba_return_def)
next
  case (ba_read_error p)
  then show ?case by (auto simp: relay_inv_def ba_return_def)
next
  case (ba_write_error p written lost)
  then show ?case by (auto simp: relay_inv_def ba_return_def)
qed

lemma relay_inv_reaches:
  assumes "reaches p q" and "relay_inv from_a from_b p"
  shows "relay_inv from_a from_b q"
  using assms by (induction rule: reaches.induct) (auto intro: relay_inv_step)

lemma closed_stays_undelivered:
  assumes "reaches p q" and "a_closed p"
  shows "a_closed q \<and> to_a q = to_a p"
  using assms
proof (induction rule: reaches.induct)
  case (reaches_refl p)
  then show ?case by simp
next
  case (reaches_step p q r)
  then have q: "a_closed q" "to_a q = to_a p" by simp_all
  from \<open>step q r\<close> q show ?case
    by (cases rule: step.cases) (auto simp: ab_return_def ba_return_def)
qed

lemma ping_run_reached: "reaches (start_pair ''ping'' True ''pong'' False) ping_run"
proof -
  let ?p0 = "start_pair ''ping'' True ''pong'' False"
  let ?p1 = "?p0\<lparr>a_unread := [], ab_buf := ''ping''\<rparr>"
  let ?p2 = "?p1\<lparr>to_b := to_b ?p1 @ ab_buf ?p1, ab_buf := []\<rparr>"
  let ?p3 = "?p2\<lparr>b_unread := [], ba_buf := ''pong''\<rparr>"
  let ?p4 = "?p3\<lparr>to_a := to_a ?p3 @ ba_buf ?p3, ba_buf := []\<rparr>"
  have s1: "step ?p0 ?p1"
    by (rule ab_read[where chunk = "''ping''"]) (simp_all add: start_pair_def)
  have s2: "step ?p1 ?p2" by (rule ab_write) (simp_all add: start_pair_def)
  have s3: "step ?p2 ?p3"
    by (rule ba_read[where chunk = "''pong''"]) (simp_all add: start_pair_def)
  have s4: "step ?p3 ?p4" by (rule ba_write) (simp_all add: start_pair_def)
  have s5: "step ?p4 (ab_return True ?p4)"
    by (rule ab_end_of_file) (simp_all add: start_pair_def)
  have e: "ab_return True ?p4 = ping_run"
    by (simp add: ab_return_def start_pair_def ping_run_def)
  have "reaches ?p0 (ab_return True ?p4)"
    using reaches_step[OF reaches_step[OF reaches_step[OF reaches_step[OF
      reaches_step[OF reaches_refl s1] s2] s3] s4] s5] .
  then show ?thesis by (simp only: e)
qed


text \<open>
  Claim C9, as stated, fails. Side A sends nothing and ends its stream; side B sends
  \<open>pong\<close>. \<open>copyIO(conn, proxy)\<close> finds end of file and closes both connections; the
  read of \<open>copyIO(proxy, conn)\<close> then fails on the closed connection. Both have
  returned, and of the four bytes side B sent none has arrived at side A.
\<close>

theorem copyIO_drops_other_direction_counterexample:
  "reaches (start_pair [] True ''pong'' True)
     (ba_return False (ab_return True (start_pair [] True ''pong'' True))) \<and>
   ab_eof (ba_return False (ab_return True (start_pair [] True ''pong'' True))) \<and>
   ba_done (ba_return False (ab_return True (start_pair [] True ''pong'' True))) \<and>
   to_a (ba_return False (ab_return True (start_pair [] True ''pong'' True))) = [] \<and>
   b_unread (ba_return False (ab_return True (start_pair [] True ''pong'' True))) = ''pong''"
proof -
  let ?p0 = "start_pair [] True ''pong'' True"
  have s1: "step ?p0 (ab_return True ?p0)"
    by (rule ab_end_of_file) (simp_all add: start_pair_def)
  have s2: "step (ab_return True ?p0) (ba_return False (ab_return True ?p0))"
    by (rule ba_read_error) (simp_all add: start_pair_def ab_return_def)
  have "reaches ?p0 (ba_return False (ab_return True ?p0))"
    using reaches_step[OF reaches_step[OF reaches_refl s1] s2] .
  then show ?thesis by (simp add: start_pair_def ab_return_def ba_return_def)
qed

text \<open>
  Claim C9, amended. In every state a pair reaches, under every schedule and with errors
  at any point: the bytes written to either side are a prefix of the bytes the other side
  sent, unmodified and in order; they are all of them when the copy in that direction has
  ended at end of file; and once either \<open>copyIO\<close> has returned, both connections are
  closed.
\<close>

theorem copyIO_prefix_and_close:
  assumes "reaches (start_pair from_a fin_a from_b fin_b) p"
  shows "prefix (to_b p) from_a \<and> prefix (to_a p) from_b \<and>
         (ab_eof p \<longrightarrow> to_b p = from_a) \<and> (ba_eof p \<longrightarrow> to_a p = from_b) \<and>
         (ab_done p \<or> ba_done p \<longrightarrow> a_closed p \<and> b_closed p)"
proof -
  have "relay_inv from_a from_b p"
    using relay_inv_reaches[OF assms relay_inv_start] .
  then show ?thesis by (auto simp: relay_inv_def split: if_splits)
qed

text \<open>The run of \<open>ping\<close> and \<open>pong\<close>.\<close>

theorem copyIO_prefix_and_close_witness:
  "reaches (start_pair ''ping'' True ''pong'' False) ping_run \<and>
   ab_eof ping_run \<and> ab_done ping_run \<and>
   to_b ping_run = ''ping'' \<and> prefix (to_a ping_run) ''pong'' \<and>
   a_closed ping_run \<and> b_closed ping_run"
  using copyIO_prefix_and_close[OF ping_run_reached] ping_run_reached
  by (simp add: ping_run_def)

end
